theory Spec2Isabelle
  imports Complex_Main
begin

section \<open>The kline proxy of \<^verbatim>\<open>main.py\<close>\<close>

text \<open>
  \<^verbatim>\<open>get_klines\<close> looks a trading symbol up in a table read from a CSV file, works out
  a date range, keeps the digits of the interval, posts one request to the DhanHQ
  charting endpoint and reshapes the column-wise answer into rows. The function is
  embedded step by step below. What it takes from outside (the table, the access token,
  the clock, the local-time conversion, the answer to the POST) is a field of the record
  \<open>env\<close>; every \<^verbatim>\<open>raise\<close> is the \<open>Inl\<close> branch of a sum. The \<^verbatim>\<open>print\<close> calls write
  to standard output only and are left out.

  Python text is a sequence of code points; a \<^typ>\<open>char\<close> here is one code point below
  256, so the development covers text in that range.
\<close>

subsection \<open>Exceptions\<close>

datatype pyexc =
    HTTPException nat string
  | KeyError string
  | TypeError string
  | ValueError string
  | OverflowError string
  | OSError string
  | NameError string

definition bind :: "pyexc + 'a \<Rightarrow> ('a \<Rightarrow> pyexc + 'b) \<Rightarrow> pyexc + 'b" where
  "bind r f = (case r of Inl e \<Rightarrow> Inl e | Inr x \<Rightarrow> f x)"

abbreviation sq :: string where
  "sq \<equiv> [CHR 0x27]"

subsection \<open>Decimal text of integers\<close>

definition digit_char :: "nat \<Rightarrow> char" where
  "digit_char n = ''0123456789abcdef'' ! n"

fun str_nat :: "nat \<Rightarrow> string" where
  "str_nat n = (if n < 10 then [digit_char n] else str_nat (n div 10) @ [digit_char (n mod 10)])"

declare str_nat.simps [simp del]

definition str_int :: "int \<Rightarrow> string" where
  "str_int i = (if i < 0 then ''-'' @ str_nat (nat (- i)) else str_nat (nat i))"

text \<open>The C conversions \<^verbatim>\<open>%02d\<close> and \<^verbatim>\<open>%02x\<close>.\<close>

definition pad2 :: "nat \<Rightarrow> string" where
  "pad2 n = (if n < 10 then ''0'' @ str_nat n else str_nat n)"

definition hex2 :: "nat \<Rightarrow> string" where
  "hex2 n = [digit_char (n div 16 mod 16), digit_char (n mod 16)]"

subsection \<open>Floats\<close>

text \<open>
  A finite Python float is a binary64 number, and \<^verbatim>\<open>repr\<close> prints the shortest decimal
  that reads back as the same number. \<open>Finite s d e\<close> stands for the float whose
  shortest decimal is \<open>d \<times> 10\<^sup>e\<close>, negative when \<open>s\<close> holds: \<^verbatim>\<open>100.5\<close> is
  \<open>Finite False 1005 (-1)\<close>. Its value is the binary64 number nearest to that decimal
  (ties to even), which \<open>nearest_double\<close> computes.
\<close>

datatype pyfloat = Finite bool nat int | Infinity bool | NaN

definition decimal_fraction :: "nat \<Rightarrow> int \<Rightarrow> nat \<times> nat" where
  "decimal_fraction d e = (if 0 \<le> e then (d * 10 ^ nat e, 1) else (d, 10 ^ nat (- e)))"

fun bit_length :: "nat \<Rightarrow> nat" where
  "bit_length n = (if n = 0 then 0 else Suc (bit_length (n div 2)))"

declare bit_length.simps [simp del]

definition floor_log2_ratio :: "nat \<Rightarrow> nat \<Rightarrow> int" where
  "floor_log2_ratio a b =
     (let s = int (bit_length a) - int (bit_length b)
      in if (if 0 \<le> s then b * 2 ^ nat s \<le> a else b \<le> a * 2 ^ nat (- s)) then s else s - 1)"

definition round_half_even :: "nat \<Rightarrow> nat \<Rightarrow> nat" where
  "round_half_even a b =
     (let q = a div b; r = a mod b
      in if 2 * r < b \<or> (2 * r = b \<and> even q) then q else q + 1)"

text \<open>
  The binary64 number nearest to a fraction \<open>a / b\<close>, as its significand \<open>m\<close> and its
  binary exponent \<open>u\<close>: it is \<open>m \<times> 2\<^sup>u\<close>.
\<close>

definition ratio_parts :: "nat \<Rightarrow> nat \<Rightarrow> nat \<times> int" where
  "ratio_parts a b =
     (let u = max (floor_log2_ratio a b - 52) (- 1074)
      in (if 0 \<le> u then round_half_even a (b * 2 ^ nat u)
          else round_half_even (a * 2 ^ nat (- u)) b, u))"

definition double_parts :: "nat \<Rightarrow> int \<Rightarrow> nat \<times> int" where
  "double_parts d e = ratio_parts (fst (decimal_fraction d e)) (snd (decimal_fraction d e))"

definition nearest_double :: "nat \<Rightarrow> int \<Rightarrow> rat" where
  "nearest_double d e =
     (if d = 0 then 0
      else let m = fst (double_parts d e); u = snd (double_parts d e)
           in if 0 \<le> u then of_nat (m * 2 ^ nat u) else of_nat m / of_nat (2 ^ nat (- u)))"

definition float_value :: "bool \<Rightarrow> nat \<Rightarrow> int \<Rightarrow> rat" where
  "float_value s d e = (if s then - nearest_double d e else nearest_double d e)"

text \<open>
  \<^verbatim>\<open>a / b\<close> of two integers, for a positive \<open>b\<close>: the float nearest to the quotient, and
  \<^verbatim>\<open>OverflowError\<close> when that is beyond the largest float. The float is given by its
  value.
\<close>

definition true_div :: "int \<Rightarrow> nat \<Rightarrow> pyexc + rat" where
  "true_div a b =
     (let m = fst (ratio_parts (nat \<bar>a\<bar>) b); u = snd (ratio_parts (nat \<bar>a\<bar>) b);
          v = (if a = 0 then 0
               else if 0 \<le> u then of_nat (m * 2 ^ nat u) else of_nat m / of_nat (2 ^ nat (- u)))
      in if 2 ^ 1024 \<le> v then Inl (OverflowError ''integer division result too large for a float'')
         else Inr (if a < 0 then - v else v))"

text \<open>\<^verbatim>\<open>int(x)\<close> of a float drops the fraction: it rounds toward zero.\<close>

definition py_trunc :: "rat \<Rightarrow> int" where
  "py_trunc v = (if 0 \<le> v then \<lfloor>v\<rfloor> else \<lceil>v\<rceil>)"

fun strip_zeros :: "nat \<Rightarrow> int \<Rightarrow> nat \<times> int" where
  "strip_zeros d e =
     (if d \<noteq> 0 \<and> d mod 10 = 0 then strip_zeros (d div 10) (e + 1) else (d, e))"

declare strip_zeros.simps [simp del]

text \<open>
  \<^verbatim>\<open>repr\<close> of a float: the digits with the point at position \<open>decpt\<close>, in exponent form
  when \<open>decpt\<close> is at most -4 or more than 16.
\<close>

definition float_repr :: "pyfloat \<Rightarrow> string" where
  "float_repr f =
     (case f of
        NaN \<Rightarrow> ''nan''
      | Infinity s \<Rightarrow> (if s then ''-inf'' else ''inf'')
      | Finite s d e \<Rightarrow>
          (if s then ''-'' else '''') @
          (if d = 0 then ''0.0''
           else let ds = str_nat (fst (strip_zeros d e)); n = int (length ds);
                    decpt = n + snd (strip_zeros d e)
                in if decpt \<le> - 4 \<or> 16 < decpt then
                     take 1 ds @ (if 1 < n then ''.'' @ drop 1 ds else '''') @ ''e'' @
                     (if decpt - 1 < 0 then ''-'' else ''+'') @ pad2 (nat \<bar>decpt - 1\<bar>)
                   else if decpt \<le> 0 then ''0.'' @ replicate (nat (- decpt)) CHR ''0'' @ ds
                   else if n \<le> decpt then ds @ replicate (nat (decpt - n)) CHR ''0'' @ ''.0''
                   else take (nat decpt) ds @ ''.'' @ drop (nat decpt) ds))"

subsection \<open>Values of the parsed upstream body\<close>

text \<open>
  \<^verbatim>\<open>response.json()\<close> yields \<^verbatim>\<open>None\<close>, booleans, integers, floats, text, lists and
  dictionaries with text keys. A dictionary keeps its keys in insertion order, so it is
  an association list; its keys are distinct. The integers of a parsed body are within
  the interpreter's digit limit, which the parser enforces, so that \<^verbatim>\<open>str\<close> of a value
  of the body does not raise.
\<close>

datatype pyval =
    PNone
  | PBool bool
  | PInt int
  | PFloat pyfloat
  | PStr string
  | PList "pyval list"
  | PDict "(string \<times> pyval) list"

fun type_name :: "pyval \<Rightarrow> string" where
  "type_name PNone = ''NoneType''"
| "type_name (PBool b) = ''bool''"
| "type_name (PInt i) = ''int''"
| "type_name (PFloat f) = ''float''"
| "type_name (PStr s) = ''str''"
| "type_name (PList xs) = ''list''"
| "type_name (PDict kvs) = ''dict''"

text \<open>\<^verbatim>\<open>repr\<close> of text: quoted, with backslash escapes for what does not print.\<close>

definition isprintable :: "char \<Rightarrow> bool" where
  "isprintable c =
     (let n = (of_char c :: nat) in (32 \<le> n \<and> n < 127) \<or> (161 \<le> n \<and> n \<noteq> 173))"

definition repr_char :: "char \<Rightarrow> char \<Rightarrow> string" where
  "repr_char q c =
     (if c = q \<or> c = CHR 0x5C then [CHR 0x5C, c]
      else if c = CHR 0x09 then [CHR 0x5C, CHR ''t'']
      else if c = CHR 0x0A then [CHR 0x5C, CHR ''n'']
      else if c = CHR 0x0D then [CHR 0x5C, CHR ''r'']
      else if isprintable c then [c]
      else [CHR 0x5C, CHR ''x''] @ hex2 (of_char c))"

definition str_repr :: "string \<Rightarrow> string" where
  "str_repr s =
     (let q = (if CHR 0x27 \<in> set s \<and> CHR 0x22 \<notin> set s then CHR 0x22 else CHR 0x27)
      in q # concat (map (repr_char q) s) @ [q])"

fun str_join :: "string \<Rightarrow> string list \<Rightarrow> string" where
  "str_join sep [] = []"
| "str_join sep [x] = x"
| "str_join sep (x # y # ys) = x @ sep @ str_join sep (y # ys)"

fun py_repr :: "pyval \<Rightarrow> string" where
  "py_repr PNone = ''None''"
| "py_repr (PBool b) = (if b then ''True'' else ''False'')"
| "py_repr (PInt i) = str_int i"
| "py_repr (PFloat f) = float_repr f"
| "py_repr (PStr s) = str_repr s"
| "py_repr (PList xs) = ''['' @ str_join '', '' (map py_repr xs) @ '']''"
| "py_repr (PDict kvs) =
     ''{'' @ str_join '', '' (map (\<lambda>kv. str_repr (fst kv) @ '': '' @ py_repr (snd kv)) kvs) @ ''}''"

text \<open>\<^verbatim>\<open>str(x)\<close>: text is itself, everything else prints as its \<^verbatim>\<open>repr\<close>.\<close>

definition py_str :: "pyval \<Rightarrow> string" where
  "py_str v = (case v of PStr s \<Rightarrow> s | _ \<Rightarrow> py_repr v)"

subsection \<open>The builtin \<^verbatim>\<open>int\<close>\<close>

text \<open>
  \<^verbatim>\<open>int\<close> of text strips white space at both ends, takes an optional sign, then decimal
  digits with single underscores between them. \<open>maxd\<close> is the interpreter's limit on the
  number of digits (\<^verbatim>\<open>sys.get_int_max_str_digits()\<close>, 4300 unless configured; 0 switches
  the limit off).
\<close>

definition int_space :: "char \<Rightarrow> bool" where
  "int_space c = ((of_char c :: nat) \<in> {9, 10, 11, 12, 13, 32, 133, 160})"

definition is_decimal :: "char \<Rightarrow> bool" where
  "is_decimal c = (48 \<le> (of_char c :: nat) \<and> (of_char c :: nat) \<le> 57)"

fun adjacent_underscores :: "string \<Rightarrow> bool" where
  "adjacent_underscores (a # b # cs) =
     ((a = CHR ''_'' \<and> b = CHR ''_'') \<or> adjacent_underscores (b # cs))"
| "adjacent_underscores cs = False"

definition digits_value :: "string \<Rightarrow> nat" where
  "digits_value ds = foldl (\<lambda>a c. 10 * a + (of_char c - 48)) 0 ds"

definition int_of_str :: "nat \<Rightarrow> string \<Rightarrow> pyexc + int" where
  "int_of_str maxd s =
     (let t = rev (dropWhile int_space (rev (dropWhile int_space s)));
          signed = (t \<noteq> [] \<and> (hd t = CHR ''+'' \<or> hd t = CHR ''-''));
          body = (if signed then tl t else t);
          run = takeWhile (\<lambda>c. is_decimal c \<or> c = CHR ''_'') body;
          ds = filter is_decimal run;
          invalid = Inl (ValueError (''invalid literal for int() with base 10: '' @
                                      take 200 (str_repr s)))
      in if run = [] \<or> hd run = CHR ''_'' \<or> last run = CHR ''_'' \<or> adjacent_underscores run
         then invalid
         else if 0 < maxd \<and> maxd < length ds
         then Inl (ValueError (''Exceeds the limit ('' @ str_nat maxd @
                '' digits) for integer string conversion: value has '' @ str_nat (length ds) @
                '' digits; use sys.set_int_max_str_digits() to increase the limit''))
         else if length run < length body then invalid
         else Inr (if hd t = CHR ''-'' then - int (digits_value ds) else int (digits_value ds)))"

fun py_int :: "nat \<Rightarrow> pyval \<Rightarrow> pyexc + int" where
  "py_int maxd (PBool b) = Inr (if b then 1 else 0)"
| "py_int maxd (PInt i) = Inr i"
| "py_int maxd (PFloat (Finite s d e)) = Inr (py_trunc (float_value s d e))"
| "py_int maxd (PFloat (Infinity s)) = Inl (OverflowError ''cannot convert float infinity to integer'')"
| "py_int maxd (PFloat NaN) = Inl (ValueError ''cannot convert float NaN to integer'')"
| "py_int maxd (PStr s) = int_of_str maxd s"
| "py_int maxd v =
     Inl (TypeError (''int() argument must be a string, a bytes-like object or a real number, not '' @
                     sq @ type_name v @ sq))"

subsection \<open>Subscription, iteration, \<^verbatim>\<open>zip\<close>\<close>

text \<open>\<^verbatim>\<open>v[key]\<close> for a text key.\<close>

fun getitem :: "pyval \<Rightarrow> string \<Rightarrow> pyexc + pyval" where
  "getitem (PDict kvs) key = (case map_of kvs key of None \<Rightarrow> Inl (KeyError key) | Some v \<Rightarrow> Inr v)"
| "getitem (PList xs) key = Inl (TypeError ''list indices must be integers or slices, not str'')"
| "getitem (PStr s) key = Inl (TypeError (''string indices must be integers, not '' @ sq @ ''str'' @ sq))"
| "getitem v key = Inl (TypeError (sq @ type_name v @ sq @ '' object is not subscriptable''))"

text \<open>
  \<^verbatim>\<open>iter(v)\<close>, run to the end: a list gives its elements, text its characters one by one,
  a dictionary its keys.
\<close>

fun py_iter :: "pyval \<Rightarrow> pyexc + pyval list" where
  "py_iter (PList xs) = Inr xs"
| "py_iter (PStr s) = Inr (map (\<lambda>c. PStr [c]) s)"
| "py_iter (PDict kvs) = Inr (map (\<lambda>kv. PStr (fst kv)) kvs)"
| "py_iter v = Inl (TypeError (sq @ type_name v @ sq @ '' object is not iterable''))"

text \<open>
  \<^verbatim>\<open>zip\<close> of six iterables stops with the shortest; a tuple of six is a nested pair.
\<close>

definition zip6 :: "'a list \<Rightarrow> 'a list \<Rightarrow> 'a list \<Rightarrow> 'a list \<Rightarrow> 'a list \<Rightarrow> 'a list \<Rightarrow>
    ('a \<times> 'a \<times> 'a \<times> 'a \<times> 'a \<times> 'a) list" where
  "zip6 ts ps hs ls cs vs = zip ts (zip ps (zip hs (zip ls (zip cs vs))))"

text \<open>\<^verbatim>\<open>str(e)\<close> of an exception, as the f-strings of the handlers print it.\<close>

fun exc_str :: "pyexc \<Rightarrow> string" where
  "exc_str (HTTPException status detail) = str_nat status @ '': '' @ detail"
| "exc_str (KeyError key) = str_repr key"
| "exc_str (TypeError m) = m"
| "exc_str (ValueError m) = m"
| "exc_str (OverflowError m) = m"
| "exc_str (OSError m) = m"
| "exc_str (NameError m) = m"

subsection \<open>Naive date-times\<close>

text \<open>
  A \<^verbatim>\<open>datetime\<close> without time zone, with the fields Python gives it. Subtracting a
  \<^verbatim>\<open>timedelta\<close> of whole days goes through the day number (\<^verbatim>\<open>toordinal\<close>, day 1 is
  0001-01-01) and back, as the library does, and raises \<^verbatim>\<open>OverflowError\<close> outside
  the years 1 to 9999.
\<close>

record datetime =
  year :: nat
  month :: nat
  day :: nat
  hour :: nat
  minute :: nat
  second :: nat
  microsecond :: nat

definition is_leap :: "nat \<Rightarrow> bool" where
  "is_leap y = (y mod 4 = 0 \<and> (y mod 100 \<noteq> 0 \<or> y mod 400 = 0))"

definition days_in_month :: "nat \<Rightarrow> nat \<Rightarrow> nat" where
  "days_in_month y m =
     (if m = 2 \<and> is_leap y then 29
      else [31, 28, 31, 30, 31, 30, 31, 31, 30, 31, 30, 31] ! (m - 1))"

definition days_before_month :: "nat \<Rightarrow> nat \<Rightarrow> nat" where
  "days_before_month y m =
     [0, 31, 59, 90, 120, 151, 181, 212, 243, 273, 304, 334] ! (m - 1) +
     (if 2 < m \<and> is_leap y then 1 else 0)"

definition days_before_year :: "nat \<Rightarrow> nat" where
  "days_before_year y =
     (y - 1) * 365 + (y - 1) div 4 + (y - 1) div 400 - (y - 1) div 100"

definition ymd2ord :: "nat \<Rightarrow> nat \<Rightarrow> nat \<Rightarrow> nat" where
  "ymd2ord y m d = days_before_year y + days_before_month y m + d"

text \<open>Month and day of the \<open>n\<close>-th day of a year, counted from 0.\<close>

definition month_day :: "bool \<Rightarrow> nat \<Rightarrow> nat \<times> nat" where
  "month_day leapyear n =
     (let m = (n + 50) div 32;
          preceding = [0, 31, 59, 90, 120, 151, 181, 212, 243, 273, 304, 334] ! (m - 1) +
                      (if 2 < m \<and> leapyear then 1 else 0)
      in if n < preceding
         then (m - 1,
               n + ([31, 28, 31, 30, 31, 30, 31, 31, 30, 31, 30, 31] ! (m - 2) +
                    (if m - 1 = 2 \<and> leapyear then 1 else 0)) - preceding + 1)
         else (m, n - preceding + 1))"

definition ord2ymd :: "nat \<Rightarrow> nat \<times> nat \<times> nat" where
  "ord2ymd ordinal =
     (let n = ordinal - 1;
          n400 = n div 146097; n = n mod 146097;
          n100 = n div 36524; n = n mod 36524;
          n4 = n div 1461; n = n mod 1461;
          n1 = n div 365; n = n mod 365;
          y = n400 * 400 + 1 + n100 * 100 + n4 * 4 + n1
      in if n1 = 4 \<or> n100 = 4 then (y - 1, 12, 31)
         else (y, month_day (n1 = 3 \<and> (n4 \<noteq> 24 \<or> n100 = 3)) n))"

text \<open>\<^verbatim>\<open>dt - timedelta(days=k)\<close>.\<close>

definition sub_days :: "datetime \<Rightarrow> nat \<Rightarrow> pyexc + datetime" where
  "sub_days dt k =
     (let ordinal = ymd2ord (year dt) (month dt) (day dt)
      in if k < ordinal \<and> ordinal - k \<le> 3652059
         then Inr (dt\<lparr>year := fst (ord2ymd (ordinal - k)),
                     month := fst (snd (ord2ymd (ordinal - k))),
                     day := snd (snd (ord2ymd (ordinal - k)))\<rparr>)
         else Inl (OverflowError ''date value out of range''))"

text \<open>
  \<^verbatim>\<open>dt.strftime('%Y-%m-%d %H:%M:%S')\<close>. The year is printed as the C library of the
  platform prints it; glibc does not pad it (CPython 3.11 on Linux prints the year 987
  as \<^verbatim>\<open>987\<close>), and from the year 1000 on it has four digits everywhere.
\<close>

definition strftime :: "datetime \<Rightarrow> string" where
  "strftime dt =
     str_nat (year dt) @ ''-'' @ pad2 (month dt) @ ''-'' @ pad2 (day dt) @ '' '' @
     pad2 (hour dt) @ '':'' @ pad2 (minute dt) @ '':'' @ pad2 (second dt)"

subsection \<open>The instrument table and the surroundings of a request\<close>

text \<open>
  \<^verbatim>\<open>script_df\<close> is the table read from \<^verbatim>\<open>api-scrip-master.csv\<close> when the module is
  loaded, with the four columns the function reads. A cell of \<^verbatim>\<open>securityId\<close> is a
  number or text.
\<close>

datatype cell = IntCell int | TextCell string

fun str_cell :: "cell \<Rightarrow> string" where
  "str_cell (IntCell i) = str_int i"
| "str_cell (TextCell s) = s"

record instrument_row =
  tradingSymbol :: string
  securityId :: cell
  exchangeSegment :: string
  instrument :: string

text \<open>The POST of step 4: URL, headers and the JSON payload, in the order of the source.\<close>

record request =
  url :: string
  headers :: "(string \<times> string) list"
  payload :: "(string \<times> string) list"

text \<open>
  What comes back: \<^verbatim>\<open>requests.post\<close> or \<^verbatim>\<open>raise_for_status\<close> raised a
  \<^verbatim>\<open>RequestException\<close> with the given text; or the status was fine and
  \<^verbatim>\<open>response.json()\<close> raised a decode error with the given text; or the body parsed.
\<close>

datatype upstream = RequestFailed string | NotJson string | Body pyval

text \<open>
  \<open>fromtimestamp e x\<close> stands for \<^verbatim>\<open>datetime.fromtimestamp(x)\<close> of a float \<open>x\<close>, given by
  its value: the conversion of seconds since the epoch to the local time of the platform,
  which can raise.
\<close>

record env =
  script_df :: "instrument_row list"
  DHAN_ACCESS_TOKEN :: string
  now :: datetime
  fromtimestamp :: "rat \<Rightarrow> pyexc + datetime"
  post :: "request \<Rightarrow> upstream"
  int_max_str_digits :: nat

definition DHAN_API_URL :: string where
  "DHAN_API_URL = ''https://api.dhan.co/v2/charts/intraday''"

text \<open>The names bound at module level: the imports of lines 2 to 8 and the definitions below them.\<close>

definition module_globals :: "string list" where
  "module_globals =
     [''os'', ''pd'', ''requests'', ''FastAPI'', ''HTTPException'', ''CORSMiddleware'',
      ''datetime'', ''timedelta'', ''traceback'', ''script_df'', ''app'',
      ''DHAN_ACCESS_TOKEN'', ''DHAN_API_URL'', ''get_klines'', ''read_root'']"

subsection \<open>\<^verbatim>\<open>get_klines\<close>, step by step\<close>

text \<open>Step 1: the rows whose \<^verbatim>\<open>tradingSymbol\<close> equals the symbol; the first one is taken.\<close>

definition find_instrument :: "env \<Rightarrow> string \<Rightarrow> pyexc + instrument_row" where
  "find_instrument e symbol =
     (case filter (\<lambda>r. tradingSymbol r = symbol) (script_df e) of
        [] \<Rightarrow> Inl (HTTPException 404
                 (''Instrument with trading symbol '' @ sq @ symbol @ sq @ '' not found.''))
      | r # rest \<Rightarrow> Inr r)"

text \<open>Step 2. \<^verbatim>\<open>None\<close> and 0 are false, every other integer is true.\<close>

definition truthy :: "int option \<Rightarrow> bool" where
  "truthy v = (case v of None \<Rightarrow> False | Some i \<Rightarrow> i \<noteq> 0)"

definition date_range :: "env \<Rightarrow> int option \<Rightarrow> int option \<Rightarrow> pyexc + datetime \<times> datetime" where
  "date_range e startTime endTime =
     (if truthy startTime \<and> truthy endTime
      then bind (true_div (the startTime) 1000) (\<lambda>start_seconds.
           bind (fromtimestamp e start_seconds) (\<lambda>from_date.
           bind (true_div (the endTime) 1000) (\<lambda>end_seconds.
           bind (fromtimestamp e end_seconds) (\<lambda>to_date.
           Inr (from_date, to_date)))))
      else bind (sub_days (now e) 30) (\<lambda>from_date. Inr (from_date, now e)))"

text \<open>
  Step 3. \<^verbatim>\<open>str.isdigit\<close> holds of the characters with the Unicode property
  \<^verbatim>\<open>Numeric_Type=Digit\<close> or \<^verbatim>\<open>Decimal\<close>: below 256 these are \<^verbatim>\<open>0\<close> to \<^verbatim>\<open>9\<close> and the
  superscripts two, three and one (U+00B2, U+00B3, U+00B9).
\<close>

definition isdigit :: "char \<Rightarrow> bool" where
  "isdigit c = (is_decimal c \<or> c = CHR 0xB2 \<or> c = CHR 0xB3 \<or> c = CHR 0xB9)"

definition parse_interval :: "string \<Rightarrow> pyexc + string" where
  "parse_interval interval =
     (case (let parsed_interval = filter isdigit interval
            in if parsed_interval = [] then Inl (ValueError ''Invalid interval format'')
               else Inr parsed_interval) of
        Inl (ValueError m) \<Rightarrow>
          Inl (HTTPException 400 (''Invalid interval format: '' @ sq @ interval @ sq))
      | Inl (TypeError m) \<Rightarrow>
          Inl (HTTPException 400 (''Invalid interval format: '' @ sq @ interval @ sq))
      | r \<Rightarrow> r)"

text \<open>Step 4: the request, and what the two handlers make of its outcome.\<close>

definition dhan_request :: "env \<Rightarrow> instrument_row \<Rightarrow> string \<Rightarrow> string \<Rightarrow> string \<Rightarrow> request" where
  "dhan_request e row parsed_interval from_date_str to_date_str =
     \<lparr>url = DHAN_API_URL,
      headers = [(''access-token'', DHAN_ACCESS_TOKEN e),
                 (''Content-Type'', ''application/json''),
                 (''Accept'', ''application/json'')],
      payload = [(''securityId'', str_cell (securityId row)),
                 (''exchangeSegment'', exchangeSegment row),
                 (''instrument'', instrument row),
                 (''interval'', parsed_interval),
                 (''fromDate'', from_date_str),
                 (''toDate'', to_date_str)]\<rparr>"

text \<open>
  The handler of the decode error is \<^verbatim>\<open>except json.JSONDecodeError\<close>; the name
  \<^verbatim>\<open>json\<close> is looked up when an exception reaches the clause, and the lookup raises
  \<^verbatim>\<open>NameError\<close> if the module does not bind it.
\<close>

definition call_upstream :: "env \<Rightarrow> request \<Rightarrow> pyexc + pyval" where
  "call_upstream e req =
     (case post e req of
        RequestFailed m \<Rightarrow> Inl (HTTPException 500 (''Error calling DhanHQ API: '' @ m))
      | NotJson m \<Rightarrow>
          (if ''json'' \<in> set module_globals
           then Inl (HTTPException 500 (''Error decoding JSON response from DhanHQ API: '' @ m))
           else Inl (NameError (''name '' @ sq @ ''json'' @ sq @ '' is not defined'')))
      | Body dhan_data \<Rightarrow> Inr dhan_data)"

text \<open>Step 5: the six columns, zipped, one row per tuple.\<close>

definition kline_row :: "nat \<Rightarrow> pyval \<times> pyval \<times> pyval \<times> pyval \<times> pyval \<times> pyval \<Rightarrow> pyexc + pyval list" where
  "kline_row maxd tup =
     (case tup of (ts, p, h, l, c, v) \<Rightarrow>
        bind (py_int maxd ts) (\<lambda>n.
        Inr [PInt (n * 1000), PStr (py_str p), PStr (py_str h), PStr (py_str l),
             PStr (py_str c), PStr (py_str v)]))"

fun comprehension :: "nat \<Rightarrow> (pyval \<times> pyval \<times> pyval \<times> pyval \<times> pyval \<times> pyval) list \<Rightarrow>
    pyexc + pyval list list" where
  "comprehension maxd [] = Inr []"
| "comprehension maxd (tup # rest) =
     bind (kline_row maxd tup) (\<lambda>row.
     bind (comprehension maxd rest) (\<lambda>rows. Inr (row # rows)))"

definition transform_body :: "nat \<Rightarrow> pyval \<Rightarrow> pyexc + pyval list list" where
  "transform_body maxd dhan_data =
     bind (getitem dhan_data ''timestamp'') (\<lambda>a1.
     bind (getitem dhan_data ''open'') (\<lambda>a2.
     bind (getitem dhan_data ''high'') (\<lambda>a3.
     bind (getitem dhan_data ''low'') (\<lambda>a4.
     bind (getitem dhan_data ''close'') (\<lambda>a5.
     bind (getitem dhan_data ''volume'') (\<lambda>a6.
     bind (py_iter a1) (\<lambda>ts.
     bind (py_iter a2) (\<lambda>ps.
     bind (py_iter a3) (\<lambda>hs.
     bind (py_iter a4) (\<lambda>ls.
     bind (py_iter a5) (\<lambda>cs.
     bind (py_iter a6) (\<lambda>vs.
     comprehension maxd (zip6 ts ps hs ls cs vs)))))))))))))"

definition transform :: "nat \<Rightarrow> pyval \<Rightarrow> pyexc + pyval list list" where
  "transform maxd dhan_data =
     (case transform_body maxd dhan_data of
        Inl (KeyError k) \<Rightarrow>
          Inl (HTTPException 500 (''Failed to parse DhanHQ response: '' @ exc_str (KeyError k)))
      | Inl (TypeError m) \<Rightarrow>
          Inl (HTTPException 500 (''Failed to parse DhanHQ response: '' @ exc_str (TypeError m)))
      | r \<Rightarrow> r)"

text \<open>The request that would be posted, when steps 1 to 3 let the function get that far.\<close>

definition prepare :: "env \<Rightarrow> string \<Rightarrow> string \<Rightarrow> int option \<Rightarrow> int option \<Rightarrow> pyexc + request" where
  "prepare e symbol interval startTime endTime =
     bind (find_instrument e symbol) (\<lambda>row.
     bind (date_range e startTime endTime) (\<lambda>dates.
     bind (parse_interval interval) (\<lambda>parsed_interval.
     Inr (dhan_request e row parsed_interval (strftime (fst dates)) (strftime (snd dates))))))"

definition get_klines :: "env \<Rightarrow> string \<Rightarrow> string \<Rightarrow> int option \<Rightarrow> int option \<Rightarrow>
    pyexc + pyval list list" where
  "get_klines e symbol interval startTime endTime =
     bind (prepare e symbol interval startTime endTime) (\<lambda>req.
     bind (call_upstream e req) (\<lambda>dhan_data.
     transform (int_max_str_digits e) dhan_data))"

subsection \<open>The response the framework sends\<close>

text \<open>
  FastAPI turns the list a route returns into a JSON body with status 200, a raised
  \<^verbatim>\<open>HTTPException\<close> into its status with the JSON body \<^verbatim>\<open>{"detail": ...}\<close>, and any
  other exception that leaves the route into status 500 with the plain text
  \<^verbatim>\<open>Internal Server Error\<close>. Writing the JSON body prints every integer, which raises
  \<^verbatim>\<open>ValueError\<close> for an integer of more digits than the interpreter's limit: that
  exception too ends in the plain 500.
\<close>

datatype http_response = JSONResponse nat pyval | PlainTextResponse nat string

definition unprintable :: "nat \<Rightarrow> pyval \<Rightarrow> bool" where
  "unprintable maxd v =
     (case v of PInt i \<Rightarrow> 0 < maxd \<and> maxd < length (str_nat (nat \<bar>i\<bar>)) | _ \<Rightarrow> False)"

fun respond :: "nat \<Rightarrow> pyexc + pyval list list \<Rightarrow> http_response" where
  "respond maxd (Inr rows) =
     (if list_ex (list_ex (unprintable maxd)) rows
      then PlainTextResponse 500 ''Internal Server Error''
      else JSONResponse 200 (PList (map PList rows)))"
| "respond maxd (Inl (HTTPException status detail)) =
     JSONResponse status (PDict [(''detail'', PStr detail)])"
| "respond maxd (Inl exc) = PlainTextResponse 500 ''Internal Server Error''"

definition klines_endpoint :: "env \<Rightarrow> string \<Rightarrow> string \<Rightarrow> int option \<Rightarrow> int option \<Rightarrow> http_response" where
  "klines_endpoint e symbol interval startTime endTime =
     respond (int_max_str_digits e) (get_klines e symbol interval startTime endTime)"

fun status_code :: "http_response \<Rightarrow> nat" where
  "status_code (JSONResponse status body) = status"
| "status_code (PlainTextResponse status body) = status"

subsection \<open>The shape \<^verbatim>\<open>YYYY-MM-DD HH:MM:SS\<close>\<close>

text \<open>The ranges the library keeps the fields of every \<^verbatim>\<open>datetime\<close> object in.\<close>

definition valid_datetime :: "datetime \<Rightarrow> bool" where
  "valid_datetime dt =
     (1 \<le> year dt \<and> year dt \<le> 9999 \<and> 1 \<le> month dt \<and> month dt \<le> 12 \<and>
      1 \<le> day dt \<and> day dt \<le> days_in_month (year dt) (month dt) \<and>
      hour dt < 24 \<and> minute dt < 60 \<and> second dt < 60 \<and> microsecond dt < 1000000)"

definition timestamp_text :: "string \<Rightarrow> bool" where
  "timestamp_text s =
     (length s = 19 \<and> s ! 4 = CHR ''-'' \<and> s ! 7 = CHR ''-'' \<and> s ! 10 = CHR '' '' \<and>
      s ! 13 = CHR '':'' \<and> s ! 16 = CHR '':'' \<and>
      list_all is_decimal (take 4 s @ take 2 (drop 5 s) @ take 2 (drop 8 s) @ take 2 (drop 11 s) @
                           take 2 (drop 14 s) @ take 2 (drop 17 s)))"

subsection \<open>An example of the surroundings\<close>

text \<open>
  A table with a symbol that occurs twice, a clock, the conversion of a Linux platform
  whose local time is UTC, and an upstream that answers every request in the same way.

  The conversion rounds the float to microseconds as the interpreter does (the fraction
  times \<open>10\<^sup>6\<close>, in binary64, then to the nearest integer, ties to even), asks the C
  library for the calendar fields, and raises \<^verbatim>\<open>OverflowError\<close> beyond the 64 bits of
  \<^verbatim>\<open>time_t\<close>, \<^verbatim>\<open>OSError\<close> when the year does not fit the 32 bits of \<^verbatim>\<open>tm_year\<close>, and
  \<^verbatim>\<open>ValueError\<close> outside the years 1 to 9999. It also looks at the instant one day
  earlier, so that every instant of 0001-01-01 raises \<^verbatim>\<open>ValueError\<close> for the year 0.
\<close>

definition example_table :: "instrument_row list" where
  "example_table =
     [\<lparr>tradingSymbol = ''RELIANCE'', securityId = IntCell 2885,
       exchangeSegment = ''NSE_EQ'', instrument = ''EQUITY''\<rparr>,
      \<lparr>tradingSymbol = ''TCS'', securityId = IntCell 11536,
       exchangeSegment = ''NSE_EQ'', instrument = ''EQUITY''\<rparr>,
      \<lparr>tradingSymbol = ''RELIANCE'', securityId = TextCell ''500325'',
       exchangeSegment = ''BSE_EQ'', instrument = ''EQUITY''\<rparr>]"

definition example_now :: datetime where
  "example_now =
     \<lparr>year = 2024, month = 3, day = 15, hour = 10, minute = 0, second = 0, microsecond = 123\<rparr>"

text \<open>A clock that reads ten in the morning of a given day.\<close>

definition clock_at :: "nat \<Rightarrow> nat \<Rightarrow> nat \<Rightarrow> datetime" where
  "clock_at y m d =
     \<lparr>year = y, month = m, day = d, hour = 10, minute = 0, second = 0, microsecond = 0\<rparr>"

definition round_microseconds :: "rat \<Rightarrow> int" where
  "round_microseconds part =
     (let a = nat (fst (quotient_of \<bar>part\<bar>)) * 1000000; b = nat (snd (quotient_of \<bar>part\<bar>));
          m = fst (ratio_parts a b); u = snd (ratio_parts a b);
          us = (if part = 0 then 0
                else if 0 \<le> u then m * 2 ^ nat u else round_half_even m (2 ^ nat (- u)))
      in if part < 0 then - int us else int us)"

text \<open>Year, month and day of a day number that may lie before 0001-01-01, which is day 1.\<close>

definition civil_date :: "int \<Rightarrow> int \<times> nat \<times> nat" where
  "civil_date ordinal =
     (let cycles = (if 1 \<le> ordinal then 0 else (- ordinal) div 146097 + 1);
          ymd = ord2ymd (nat (ordinal + 146097 * cycles))
      in (int (fst ymd) - 400 * cycles, snd ymd))"

definition utc_fromtimestamp :: "rat \<Rightarrow> pyexc + datetime" where
  "utc_fromtimestamp x =
     (let whole = py_trunc x; rounded = round_microseconds (x - of_int whole);
          seconds = (if 1000000 \<le> rounded then whole + 1
                     else if rounded < 0 then whole - 1 else whole);
          us = (if 1000000 \<le> rounded then rounded - 1000000
                else if rounded < 0 then rounded + 1000000 else rounded);
          ordinal = 719163 + seconds div 86400; r = nat (seconds mod 86400);
          date = civil_date ordinal; tm_year = fst date - 1900;
          y = (fst date + 2 ^ 31) mod 2 ^ 32 - 2 ^ 31
      in if seconds < - (2 ^ 63) \<or> 2 ^ 63 \<le> seconds
         then Inl (OverflowError ''timestamp out of range for platform time_t'')
         else if tm_year < - (2 ^ 31) \<or> 2 ^ 31 \<le> tm_year
         then Inl (OSError ''[Errno 75] Value too large for defined data type'')
         else if y < 1 \<or> 9999 < y
         then Inl (ValueError (''year '' @ str_int y @ '' is out of range''))
         else if ordinal = 1
         then Inl (ValueError ''year 0 is out of range'')
         else Inr \<lparr>year = nat y, month = fst (snd date), day = snd (snd date),
                   hour = r div 3600, minute = r div 60 mod 60, second = r mod 60,
                   microsecond = nat us\<rparr>)"

definition example_env :: "upstream \<Rightarrow> env" where
  "example_env answer =
     \<lparr>script_df = example_table, DHAN_ACCESS_TOKEN = ''YOUR_DHAN_ACCESS_TOKEN_HERE'',
      now = example_now, fromtimestamp = utc_fromtimestamp, post = (\<lambda>req. answer),
      int_max_str_digits = 4300\<rparr>"

text \<open>
  Upstream bodies: two candles; the body of the specification's example, whose
  \<^verbatim>\<open>low\<close> is the text \<^verbatim>\<open>"99.8"\<close>; one candle at 1700000000.5 seconds; a body whose
  second timestamp is the text \<^verbatim>\<open>"abc"\<close>; a body whose second timestamp is the text
  \<^verbatim>\<open>"1700000060.5"\<close>.
\<close>

definition two_candles :: pyval where
  "two_candles =
     PDict [(''timestamp'', PList [PInt 1700000000, PStr ''1700000060'']),
            (''open'', PList [PFloat (Finite False 1005 (- 1)), PInt 101]),
            (''high'', PList [PInt 102, PInt 103, PInt 104]),
            (''low'', PList [PFloat (Finite False 998 (- 1)), PInt 100]),
            (''close'', PList [PFloat (Finite False 1009 (- 1)), PInt 102]),
            (''volume'', PList [PInt 2000, PInt 3000])]"

text \<open>
  An upstream that answers with the two candles when the request it receives is the
  expected one, and fails otherwise; and the request for the first \<^verbatim>\<open>RELIANCE\<close> row
  with interval 5, by security id, segment and the two date texts.
\<close>

definition expecting_env :: "request \<Rightarrow> env" where
  "expecting_env expected =
     (example_env (RequestFailed ''unexpected request''))
       \<lparr>post := (\<lambda>req. if req = expected then Body two_candles
                        else RequestFailed ''unexpected request'')\<rparr>"

definition example_request :: "string \<Rightarrow> string \<Rightarrow> string \<Rightarrow> string \<Rightarrow> request" where
  "example_request security_id segment from_date_str to_date_str =
     \<lparr>url = ''https://api.dhan.co/v2/charts/intraday'',
      headers = [(''access-token'', ''YOUR_DHAN_ACCESS_TOKEN_HERE''),
                 (''Content-Type'', ''application/json''), (''Accept'', ''application/json'')],
      payload = [(''securityId'', security_id), (''exchangeSegment'', segment),
                 (''instrument'', ''EQUITY''), (''interval'', ''5''),
                 (''fromDate'', from_date_str), (''toDate'', to_date_str)]\<rparr>"

definition spec_example :: pyval where
  "spec_example =
     PDict [(''timestamp'', PList [PInt 1700000000]),
            (''open'', PList [PFloat (Finite False 1005 (- 1))]),
            (''high'', PList [PInt 101]),
            (''low'', PStr ''99.8''),
            (''close'', PList [PFloat (Finite False 1009 (- 1))]),
            (''volume'', PList [PInt 2000])]"

definition half_second :: pyval where
  "half_second =
     PDict [(''timestamp'', PList [PFloat (Finite False 17000000005 (- 1))]),
            (''open'', PList [PInt 1]), (''high'', PList [PInt 1]), (''low'', PList [PInt 1]),
            (''close'', PList [PInt 1]), (''volume'', PList [PInt 1])]"

definition text_timestamp :: pyval where
  "text_timestamp =
     PDict [(''timestamp'', PList [PInt 1700000000, PStr ''abc'']),
            (''open'', PList [PInt 1, PInt 2]), (''high'', PList [PInt 1, PInt 2]),
            (''low'', PList [PInt 1, PInt 2]), (''close'', PList [PInt 1, PInt 2]),
            (''volume'', PList [PInt 1, PInt 2])]"

definition decimal_text_timestamp :: pyval where
  "decimal_text_timestamp =
     PDict [(''timestamp'', PList [PInt 1700000000, PStr ''1700000060.5'']),
            (''open'', PList [PInt 1, PInt 2]), (''high'', PList [PInt 1, PInt 2]),
            (''low'', PList [PInt 1, PInt 2]), (''close'', PList [PInt 1, PInt 2]),
            (''volume'', PList [PInt 1, PInt 2])]"

section \<open>Properties\<close>

subsection \<open>Sequencing, \<^verbatim>\<open>zip\<close> and the comprehension\<close>

lemma bind_Inl [simp]: "bind (Inl e) f = Inl e"
  by (simp add: bind_def)

lemma bind_Inr [simp]: "bind (Inr x) f = f x"
  by (simp add: bind_def)

lemma bind_eq_Inr: "bind r f = Inr y \<longleftrightarrow> (\<exists>x. r = Inr x \<and> f x = Inr y)"
  by (cases r) simp_all

lemma bind_eq_Inl: "bind r f = Inl e \<longleftrightarrow> r = Inl e \<or> (\<exists>x. r = Inr x \<and> f x = Inl e)"
  by (cases r) simp_all

lemma length_zip6:
  "length (zip6 ts ps hs ls cs vs) =
     min (length ts) (min (length ps) (min (length hs) (min (length ls) (min (length cs) (length vs)))))"
  by (simp add: zip6_def)

lemma nth_zip6:
  "i < length (zip6 ts ps hs ls cs vs) \<Longrightarrow>
     zip6 ts ps hs ls cs vs ! i = (ts ! i, ps ! i, hs ! i, ls ! i, cs ! i, vs ! i)"
  by (simp add: zip6_def)

lemma kline_row_eq_Inr:
  "kline_row maxd (ts, p, h, l, c, v) = Inr row \<longleftrightarrow>
     (\<exists>n. py_int maxd ts = Inr n \<and>
          row = [PInt (n * 1000), PStr (py_str p), PStr (py_str h), PStr (py_str l),
                 PStr (py_str c), PStr (py_str v)])"
  by (auto simp: kline_row_def bind_eq_Inr)

text \<open>The comprehension returns rows exactly when every tuple gives its row.\<close>

lemma comprehension_eq_Inr:
  "comprehension maxd tups = Inr rows \<longleftrightarrow>
     list_all2 (\<lambda>tup row. kline_row maxd tup = Inr row) tups rows"
proof (induction tups arbitrary: rows)
  case Nil
  show ?case by auto
next
  case (Cons tup rest)
  show ?case
  proof (cases "kline_row maxd tup")
    case (Inl e)
    then show ?thesis by (auto simp: list_all2_Cons1)
  next
    case (Inr row)
    then show ?thesis
      using Cons.IH by (cases "comprehension maxd rest") (auto simp: list_all2_Cons1)
  qed
qed

text \<open>The handler of step 5 leaves a returned list alone.\<close>

lemma transform_eq_Inr: "transform maxd d = Inr rows \<longleftrightarrow> transform_body maxd d = Inr rows"
  by (auto simp: transform_def split: sum.splits pyexc.splits)

text \<open>What it means for step 5 to return rows.\<close>

lemma transform_Inr_iff:
  "transform maxd d = Inr rows \<longleftrightarrow>
     (\<exists>a1 a2 a3 a4 a5 a6 ts ps hs ls cs vs.
        getitem d ''timestamp'' = Inr a1 \<and> getitem d ''open'' = Inr a2 \<and>
        getitem d ''high'' = Inr a3 \<and> getitem d ''low'' = Inr a4 \<and>
        getitem d ''close'' = Inr a5 \<and> getitem d ''volume'' = Inr a6 \<and>
        py_iter a1 = Inr ts \<and> py_iter a2 = Inr ps \<and> py_iter a3 = Inr hs \<and>
        py_iter a4 = Inr ls \<and> py_iter a5 = Inr cs \<and> py_iter a6 = Inr vs \<and>
        list_all2 (\<lambda>tup row. kline_row maxd tup = Inr row) (zip6 ts ps hs ls cs vs) rows)"
  unfolding transform_eq_Inr transform_body_def bind_eq_Inr comprehension_eq_Inr
  by blast

subsection \<open>Rounding toward zero\<close>

lemma py_trunc_minus: "py_trunc (- v) = - py_trunc v"
  by (auto simp: py_trunc_def ceiling_def)

lemma py_trunc_fraction: "py_trunc (of_nat m / of_nat k) = int (m div k)"
  by (simp add: py_trunc_def floor_divide_of_nat_eq)

lemma py_trunc_of_nat: "py_trunc (of_nat n) = int n"
  by (simp add: py_trunc_def)


lemma py_trunc_float_value:
  "py_trunc (float_value s d e) =
     (if d = 0 then 0
      else let m = fst (double_parts d e); u = snd (double_parts d e);
               t = (if 0 \<le> u then m * 2 ^ nat u else m div 2 ^ nat (- u))
           in if s then - int t else int t)"
  by (simp add: float_value_def nearest_double_def Let_def py_trunc_minus py_trunc_fraction
      py_trunc_of_nat del: of_nat_mult of_nat_power) (simp add: py_trunc_def)

subsection \<open>Evaluation on the examples\<close>

lemmas str_eval =
  str_nat.simps digit_char_def str_int_def pad2_def float_repr_def strip_zeros.simps py_str_def

lemmas transform_eval = transform_def transform_body_def kline_row_def zip6_def

lemma example_prepare:
  "prepare (example_env answer) ''RELIANCE'' ''5m'' None None =
     Inr \<lparr>url = ''https://api.dhan.co/v2/charts/intraday'',
          headers = [(''access-token'', ''YOUR_DHAN_ACCESS_TOKEN_HERE''),
                     (''Content-Type'', ''application/json''), (''Accept'', ''application/json'')],
          payload = [(''securityId'', ''2885''), (''exchangeSegment'', ''NSE_EQ''),
                     (''instrument'', ''EQUITY''), (''interval'', ''5''),
                     (''fromDate'', ''2024-02-14 10:00:00''), (''toDate'', ''2024-03-15 10:00:00'')]\<rparr>"
  by (simp add: prepare_def find_instrument_def example_env_def example_table_def date_range_def
      truthy_def sub_days_def example_now_def ymd2ord_def days_before_year_def days_before_month_def
      is_leap_def ord2ymd_def month_day_def Let_def parse_interval_def isdigit_def is_decimal_def dhan_request_def
      DHAN_API_URL_def strftime_def str_eval)

lemma example_post [simp]: "post (example_env answer) req = answer"
  by (simp add: example_env_def)

lemma example_maxd [simp]: "int_max_str_digits (example_env answer) = 4300"
  by (simp add: example_env_def)

lemma int_of_str_abc:
  "int_of_str 4300 ''abc'' =
     Inl (ValueError (''invalid literal for int() with base 10: '' @ sq @ ''abc'' @ sq))"
  by (simp add: int_of_str_def int_space_def is_decimal_def str_repr_def repr_char_def
      isprintable_def Let_def)

lemma int_of_str_decimal_text:
  "int_of_str 4300 ''1700000060.5'' =
     Inl (ValueError (''invalid literal for int() with base 10: '' @ sq @ ''1700000060.5'' @ sq))"
  by (simp add: int_of_str_def int_space_def is_decimal_def str_repr_def repr_char_def
      isprintable_def Let_def)

lemma int_of_str_1700000060: "int_of_str 4300 ''1700000060'' = Inr 1700000060"
  by (simp add: int_of_str_def int_space_def is_decimal_def digits_value_def Let_def)

text \<open>The float 1700000000.5 is exactly representable; \<^verbatim>\<open>int\<close> of it is 1700000000.\<close>

lemma decimal_fraction_half_second: "decimal_fraction 17000000005 (- 1) = (17000000005, 10)"
  by (simp add: decimal_fraction_def)

lemma floor_log2_ratio_half_second: "floor_log2_ratio 17000000005 10 = 30"
  by (simp add: floor_log2_ratio_def bit_length.simps Let_def)

lemma double_parts_half_second: "double_parts 17000000005 (- 1) = (7130316802097152, - 22)"
  by (simp add: double_parts_def ratio_parts_def decimal_fraction_half_second
      floor_log2_ratio_half_second round_half_even_def Let_def)

lemma float_value_half_second: "float_value False 17000000005 (- 1) = 3400000001 / 2"
  by (simp add: float_value_def nearest_double_def double_parts_half_second Let_def)

lemma py_trunc_half_second: "py_trunc (float_value False 17000000005 (- 1)) = 1700000000"
  by (simp add: py_trunc_float_value double_parts_half_second)

subsection \<open>Digits of small numbers\<close>

lemma is_decimal_digit_char: "n < 10 \<Longrightarrow> is_decimal (digit_char n)"
proof -
  assume "n < 10"
  have "list_all (\<lambda>k. is_decimal (digit_char k)) [0..<10]"
    by (simp add: upt_rec digit_char_def is_decimal_def)
  with \<open>n < 10\<close> show ?thesis
    by (simp add: list_all_iff)
qed

lemma str_nat_digit: "n < 10 \<Longrightarrow> str_nat n = [digit_char n]"
  by (simp add: str_nat.simps [of n])

lemma str_nat_step: "10 \<le> n \<Longrightarrow> str_nat n = str_nat (n div 10) @ [digit_char (n mod 10)]"
  by (simp add: str_nat.simps [of n])

lemma pad2_two: "n < 100 \<Longrightarrow> pad2 n = [digit_char (n div 10), digit_char (n mod 10)]"
proof (cases "n < 10")
  case True
  then show ?thesis
    by (simp add: pad2_def str_nat_digit digit_char_def)
next
  case False
  assume "n < 100"
  with False have "n div 10 < 10" and "10 \<le> n"
    by simp_all
  then show ?thesis
    by (simp add: pad2_def str_nat_step str_nat_digit)
qed

lemma str_nat_four:
  assumes "1000 \<le> n" and "n < 10000"
  shows "str_nat n = [digit_char (n div 1000), digit_char (n div 100 mod 10),
                      digit_char (n div 10 mod 10), digit_char (n mod 10)]"
proof -
  have a: "10 \<le> n" "10 \<le> n div 10" "10 \<le> n div 10 div 10" "n div 10 div 10 div 10 < 10"
    using assms by simp_all
  have b: "n div 10 div 10 = n div 100" "n div 100 div 10 = n div 1000"
    by (simp_all add: div_mult2_eq [symmetric])
  show ?thesis
    using a by (simp add: str_nat_step str_nat_digit b)
qed

lemma days_in_month_le: "m \<le> 12 \<Longrightarrow> days_in_month y m \<le> 31"
proof -
  assume "m \<le> 12"
  have "list_all (\<lambda>k. days_in_month y k \<le> 31) [0..<13]"
    by (simp add: upt_rec days_in_month_def)
  with \<open>m \<le> 12\<close> show ?thesis
    by (simp add: list_all_iff)
qed

lemma strftime_shape_fields:
  assumes "1000 \<le> year dt" "year dt < 10000" "month dt < 100" "day dt < 100" "hour dt < 100"
    "minute dt < 100" "second dt < 100"
  shows "timestamp_text (strftime dt)"
  using assms
  by (simp add: timestamp_text_def strftime_def pad2_two str_nat_four is_decimal_digit_char)

lemma strftime_shape:
  assumes "valid_datetime dt" and "1000 \<le> year dt"
  shows "timestamp_text (strftime dt)"
proof (rule strftime_shape_fields)
  show "day dt < 100"
    using assms(1) days_in_month_le [of "month dt" "year dt"] by (simp add: valid_datetime_def)
qed (use assms in \<open>simp_all add: valid_datetime_def\<close>)

subsection \<open>The float nearest to a fraction\<close>

text \<open>
  \<open>bit_length\<close> and \<open>floor_log2_ratio\<close> locate a fraction between two powers of 2,
  \<open>round_half_even\<close> is within one half of the quotient, and so the binary64 number
  that \<open>ratio_parts\<close> yields is within one part in \<open>2\<^sup>5\<^sup>3\<close> of the fraction, for a
  fraction in the range of the normal floats.
\<close>

lemma bit_length_upper: "n < 2 ^ bit_length n"
proof (induction n rule: bit_length.induct)
  case (1 n)
  show ?case
  proof (cases "n = 0")
    case True
    then show ?thesis by (simp add: bit_length.simps)
  next
    case False
    with 1 have "n div 2 < 2 ^ bit_length (n div 2)"
      by simp
    then have "n < 2 * 2 ^ bit_length (n div 2)"
      by linarith
    with False show ?thesis
      by (subst bit_length.simps) simp
  qed
qed

lemma bit_length_lower: "0 < n \<Longrightarrow> 2 ^ bit_length n \<le> 2 * n"
proof (induction n rule: bit_length.induct)
  case (1 n)
  show ?case
  proof (cases "n div 2 = 0")
    case True
    with 1(2) have "n = 1"
      by linarith
    then show ?thesis
      by (simp add: bit_length.simps)
  next
    case False
    with 1 have "2 ^ bit_length (n div 2) \<le> 2 * (n div 2)"
      by simp
    then have "2 * 2 ^ bit_length (n div 2) \<le> 2 * n"
      by linarith
    with 1(2) show ?thesis
      by (subst bit_length.simps) simp
  qed
qed

lemma round_half_even_error:
  assumes "0 < b"
  shows "\<bar>(of_nat (round_half_even a b) :: rat) - of_nat a / of_nat b\<bar> \<le> 1 / 2"
proof -
  define q where "q = a div b"
  define r where "r = a mod b"
  have a: "a = q * b + r" and r: "r < b"
    using assms by (simp_all add: q_def r_def)
  have b: "(0::rat) < of_nat b"
    using assms by simp
  have quot: "(of_nat a :: rat) / of_nat b = of_nat q + of_nat r / of_nat b"
    using b by (simp add: a field_simps)
  show ?thesis
  proof (cases "2 * r < b \<or> (2 * r = b \<and> even q)")
    case True
    then have "round_half_even a b = q"
      by (simp add: round_half_even_def q_def r_def Let_def)
    moreover from True have "2 * r \<le> b"
      by auto
    then have "(2::rat) * of_nat r \<le> of_nat b"
      by (metis of_nat_le_iff of_nat_mult of_nat_numeral)
    then have "(of_nat r :: rat) / of_nat b \<le> 1 / 2"
      using b by (simp add: field_simps)
    ultimately show ?thesis
      using b by (simp add: quot)
  next
    case False
    then have "round_half_even a b = q + 1"
      by (simp add: round_half_even_def q_def r_def Let_def)
    moreover from False have "b \<le> 2 * r"
      by auto
    then have "(of_nat b :: rat) \<le> 2 * of_nat r"
      by (metis of_nat_le_iff of_nat_mult of_nat_numeral)
    then have "1 / 2 \<le> (of_nat r :: rat) / of_nat b"
      using b by (simp add: field_simps)
    moreover have "(of_nat r :: rat) / of_nat b < 1"
      using r b by simp
    ultimately show ?thesis
      by (simp add: quot)
  qed
qed

lemma bit_length_powi:
  assumes "0 < n"
  shows "(of_nat n :: rat) < 2 powi int (bit_length n)"
    and "(2::rat) powi (int (bit_length n) - 1) \<le> of_nat n"
proof -
  have "(of_nat n :: rat) < of_nat (2 ^ bit_length n)"
    using bit_length_upper [of n] by (simp only: of_nat_less_iff)
  then show "(of_nat n :: rat) < 2 powi int (bit_length n)"
    by simp
  have "(of_nat (2 ^ bit_length n) :: rat) \<le> of_nat (2 * n)"
    using bit_length_lower [OF assms] by (simp only: of_nat_le_iff)
  then have "(2::rat) powi int (bit_length n) \<le> 2 * of_nat n"
    by simp
  moreover have "(2::rat) powi int (bit_length n) = 2 * 2 powi (int (bit_length n) - 1)"
    by (simp add: power_int_diff)
  ultimately show "(2::rat) powi (int (bit_length n) - 1) \<le> of_nat n"
    by simp
qed

lemma powi_2_add: "(2::rat) powi (m + n) = 2 powi m * 2 powi n"
  by (simp add: power_int_add)

lemma floor_log2_ratio_test:
  "(if 0 \<le> s then b * 2 ^ nat s \<le> a else b \<le> a * 2 ^ nat (- s)) \<longleftrightarrow>
   (of_nat b :: rat) * 2 powi s \<le> of_nat a"
proof (cases "0 \<le> s")
  case True
  then have "(2::rat) powi s = of_nat (2 ^ nat s)"
    by (simp add: power_int_def)
  then have "(of_nat b :: rat) * 2 powi s = of_nat (b * 2 ^ nat s)"
    by simp
  then show ?thesis
    using True by (simp only: of_nat_le_iff if_True)
next
  case False
  have p: "(0::rat) < 2 ^ nat (- s)"
    by simp
  from False have "(2::rat) powi s = 1 / 2 ^ nat (- s)"
    by (simp add: power_int_def field_simps)
  then have "(of_nat b :: rat) * 2 powi s = of_nat b / 2 ^ nat (- s)"
    by simp
  also have "\<dots> \<le> of_nat a \<longleftrightarrow> (of_nat b :: rat) \<le> of_nat a * 2 ^ nat (- s)"
    by (rule pos_divide_le_eq [OF p])
  also have "(of_nat a :: rat) * 2 ^ nat (- s) = of_nat (a * 2 ^ nat (- s))"
    by simp
  finally show ?thesis
    using False by (simp only: of_nat_le_iff if_False)
qed

lemma floor_log2_ratio_bounds:
  assumes "0 < a" "0 < b"
  shows "(of_nat b :: rat) * 2 powi floor_log2_ratio a b \<le> of_nat a"
    and "(of_nat a :: rat) < of_nat b * 2 powi (floor_log2_ratio a b + 1)"
proof -
  define s where "s = int (bit_length a) - int (bit_length b)"
  note A = bit_length_powi [OF assms(1)] and B = bit_length_powi [OF assms(2)]
  have la: "int (bit_length a) = int (bit_length b) + s"
    by (simp add: s_def)
  have k: "floor_log2_ratio a b = (if (of_nat b :: rat) * 2 powi s \<le> of_nat a then s else s - 1)"
    unfolding floor_log2_ratio_def Let_def s_def [symmetric] floor_log2_ratio_test ..
  have up: "(of_nat a :: rat) < of_nat b * 2 powi (s + 1)"
  proof -
    have "(of_nat a :: rat) < 2 powi int (bit_length a)"
      by (rule A(1))
    also have "\<dots> = 2 powi (int (bit_length b) - 1) * 2 powi (s + 1)"
      unfolding la by (simp add: power_int_add [symmetric])
    also have "\<dots> \<le> of_nat b * 2 powi (s + 1)"
      using B(2) by (intro mult_right_mono) simp_all
    finally show ?thesis .
  qed
  have low: "(of_nat b :: rat) * 2 powi (s - 1) \<le> of_nat a"
  proof -
    have "(of_nat b :: rat) * 2 powi (s - 1) \<le> 2 powi int (bit_length b) * 2 powi (s - 1)"
      using B(1) by (intro mult_right_mono) simp_all
    also have "\<dots> = 2 powi (int (bit_length b) + (s - 1))"
      by (simp only: powi_2_add)
    also have "\<dots> \<le> of_nat a"
      using A(2) by (simp only: la add_diff_eq)
    finally show ?thesis .
  qed
  show "(of_nat b :: rat) * 2 powi floor_log2_ratio a b \<le> of_nat a"
    using low by (simp add: k)
  show "(of_nat a :: rat) < of_nat b * 2 powi (floor_log2_ratio a b + 1)"
    using up by (auto simp add: k)
qed

lemma ratio_parts_error:
  assumes "0 < a" "0 < b" "- 1022 \<le> floor_log2_ratio a b"
  shows "\<bar>(of_nat (fst (ratio_parts a b)) :: rat) * 2 powi snd (ratio_parts a b) -
           of_nat a / of_nat b\<bar> * 2 ^ 53 \<le> of_nat a / of_nat b"
proof -
  define k where "k = floor_log2_ratio a b"
  define u where "u = k - 52"
  define m where "m = fst (ratio_parts a b)"
  define q :: rat where "q = of_nat a / of_nat b"
  define w :: rat where "w = 2 powi u"
  have w: "0 < w"
    by (simp add: w_def)
  have b: "(0::rat) < of_nat b"
    using assms(2) by simp
  have parts: "ratio_parts a b =
      (if 0 \<le> u then round_half_even a (b * 2 ^ nat u) else round_half_even (a * 2 ^ nat (- u)) b, u)"
  proof -
    have "max (floor_log2_ratio a b - 52) (- 1074) = u"
      using assms(3) by (simp add: u_def k_def)
    then show ?thesis
      unfolding ratio_parts_def Let_def by (simp only:)
  qed
  have half: "\<bar>(of_nat m :: rat) - q / w\<bar> \<le> 1 / 2"
  proof (cases "0 \<le> u")
    case True
    then have "w = of_nat (2 ^ nat u)"
      by (simp add: w_def power_int_def)
    then have "q / w = of_nat a / of_nat (b * 2 ^ nat u)"
      by (simp add: q_def)
    moreover have "m = round_half_even a (b * 2 ^ nat u)"
      using True by (simp add: m_def parts)
    ultimately show ?thesis
      using round_half_even_error [of "b * 2 ^ nat u" a] assms(2) by simp
  next
    case False
    then have "w = 1 / of_nat (2 ^ nat (- u))"
      by (simp add: w_def power_int_def field_simps)
    then have "q / w = of_nat (a * 2 ^ nat (- u)) / of_nat b"
      by (simp add: q_def)
    moreover have "m = round_half_even (a * 2 ^ nat (- u)) b"
      using False by (simp add: m_def parts)
    ultimately show ?thesis
      using round_half_even_error [of b "a * 2 ^ nat (- u)"] assms(2) by simp
  qed
  have "(of_nat m :: rat) * w - q = w * (of_nat m - q / w)"
    using w by (simp add: field_simps)
  then have "\<bar>(of_nat m :: rat) * w - q\<bar> = \<bar>w\<bar> * \<bar>of_nat m - q / w\<bar>"
    by (simp only: abs_mult)
  then have scaled: "\<bar>(of_nat m :: rat) * w - q\<bar> = w * \<bar>of_nat m - q / w\<bar>"
    using w by simp
  have "w * \<bar>of_nat m - q / w\<bar> \<le> w * (1 / 2)"
    using half w by (intro mult_left_mono) simp_all
  with scaled have err: "\<bar>(of_nat m :: rat) * w - q\<bar> \<le> w / 2"
    by simp
  have "(2::rat) powi k = 2 powi u * 2 powi 52"
    by (simp only: powi_2_add [symmetric] u_def) simp
  then have "w * 2 ^ 52 = 2 powi k"
    by (simp add: w_def)
  moreover have "(2::rat) powi k \<le> q"
    using floor_log2_ratio_bounds(1) [OF assms(1,2)] b by (simp add: k_def q_def field_simps)
  ultimately have "w * 2 ^ 52 \<le> q"
    by simp
  then have "w / 2 * 2 ^ 53 \<le> q"
    by simp
  moreover have "\<bar>(of_nat m :: rat) * w - q\<bar> * 2 ^ 53 \<le> w / 2 * 2 ^ 53"
    using err by (intro mult_right_mono) simp_all
  ultimately have "\<bar>(of_nat m :: rat) * w - q\<bar> * 2 ^ 53 \<le> q"
    by (rule order_trans [rotated])
  then show ?thesis
    by (simp add: m_def w_def q_def parts)
qed

lemma floor_log2_ratio_normal:
  assumes "0 < a" "0 < b" "(of_nat b :: rat) \<le> of_nat a * 2 ^ 1022"
  shows "- 1022 \<le> floor_log2_ratio a b"
proof (rule ccontr)
  assume "\<not> - 1022 \<le> floor_log2_ratio a b"
  then have "floor_log2_ratio a b + 1 \<le> - 1022"
    by simp
  then have "(2::rat) powi (floor_log2_ratio a b + 1) \<le> 2 powi (- 1022)"
    by (intro power_int_increasing) simp_all
  then have "(of_nat b :: rat) * 2 powi (floor_log2_ratio a b + 1) \<le> of_nat b * 2 powi (- 1022)"
    by (intro mult_left_mono) simp_all
  with floor_log2_ratio_bounds(2) [OF assms(1,2)]
  have "(of_nat a :: rat) < of_nat b * 2 powi (- 1022)"
    by simp
  also have "\<dots> = of_nat b / 2 ^ 1022"
    by (simp add: power_int_minus field_simps)
  finally have "(of_nat a :: rat) * 2 ^ 1022 < of_nat b"
    by (simp add: field_simps)
  with assms(3) show False
    by simp
qed

text \<open>
  Hence the division of the source: the float that \<^verbatim>\<open>ms / 1000\<close> yields is within one
  part in \<open>2\<^sup>5\<^sup>3\<close> of the quotient, and the division overflows only for a quotient of
  at least \<open>2\<^sup>1\<^sup>0\<^sup>2\<^sup>3\<close>.
\<close>

lemma true_div_0: "true_div 0 b = Inr 0"
  by (simp add: true_div_def Let_def)

lemma true_div_cases:
  fixes s :: int and b :: nat
  assumes "s \<noteq> 0"
  defines "v \<equiv> (of_nat (fst (ratio_parts (nat \<bar>s\<bar>) b)) :: rat) * 2 powi snd (ratio_parts (nat \<bar>s\<bar>) b)"
  shows "true_div s b =
     (if 2 ^ 1024 \<le> v then Inl (OverflowError ''integer division result too large for a float'')
      else Inr (if s < 0 then - v else v))"
proof -
  define m where "m = fst (ratio_parts (nat \<bar>s\<bar>) b)"
  define u where "u = snd (ratio_parts (nat \<bar>s\<bar>) b)"
  have "(if 0 \<le> u then (of_nat (m * 2 ^ nat u) :: rat) else of_nat m / of_nat (2 ^ nat (- u))) =
      of_nat m * 2 powi u"
    by (simp add: power_int_def field_simps)
  then show ?thesis
    using assms(1) unfolding true_div_def Let_def v_def m_def [symmetric] u_def [symmetric]
    by simp
qed

lemma true_div_error:
  assumes "0 < b" "s \<noteq> 0" "(of_nat b :: rat) \<le> \<bar>of_int s\<bar> * 2 ^ 1022"
  shows "true_div s b = Inr x \<Longrightarrow> \<bar>x - of_int s / of_nat b\<bar> * 2 ^ 53 \<le> \<bar>of_int s / of_nat b\<bar>"
    and "true_div s b = Inl exc \<Longrightarrow>
           exc = OverflowError ''integer division result too large for a float'' \<and>
           (2::rat) ^ 1023 \<le> \<bar>of_int s / of_nat b\<bar>"
proof -
  define a where "a = nat \<bar>s\<bar>"
  define v :: rat where "v = of_nat (fst (ratio_parts a b)) * 2 powi snd (ratio_parts a b)"
  define q :: rat where "q = of_nat a / of_nat b"
  have a: "0 < a" and abs_s: "(\<bar>of_int s\<bar> :: rat) = of_nat a"
    using assms(2) by (simp_all add: a_def)
  have q: "\<bar>of_int s / of_nat b\<bar> = q"
    by (simp add: q_def abs_s)
  have signed: "(of_int s :: rat) / of_nat b = (if s < 0 then - q else q)"
    by (simp add: q_def a_def)
  have "- 1022 \<le> floor_log2_ratio a b"
    using a assms(1) assms(3) unfolding abs_s by (rule floor_log2_ratio_normal)
  from ratio_parts_error [OF a assms(1) this]
  have err: "\<bar>v - q\<bar> * 2 ^ 53 \<le> q"
    by (simp add: v_def q_def)
  have td: "true_div s b =
     (if 2 ^ 1024 \<le> v then Inl (OverflowError ''integer division result too large for a float'')
      else Inr (if s < 0 then - v else v))"
    using true_div_cases [OF assms(2), of b] by (simp add: v_def a_def)
  show "\<bar>x - of_int s / of_nat b\<bar> * 2 ^ 53 \<le> \<bar>of_int s / of_nat b\<bar>" if "true_div s b = Inr x"
  proof -
    from that td have x: "x = (if s < 0 then - v else v)"
      by (simp split: if_splits)
    have "\<bar>x - of_int s / of_nat b\<bar> = \<bar>v - q\<bar>"
      unfolding signed by (simp add: x abs_minus_commute)
    then show ?thesis
      unfolding q using err by (simp only:)
  qed
  show "exc = OverflowError ''integer division result too large for a float'' \<and>
        (2::rat) ^ 1023 \<le> \<bar>of_int s / of_nat b\<bar>" if "true_div s b = Inl exc"
  proof -
    from that td have big: "2 ^ 1024 \<le> v"
      and exc: "exc = OverflowError ''integer division result too large for a float''"
      by (simp_all split: if_splits)
    have "0 \<le> q"
      by (simp add: q_def)
    have "\<bar>v - q\<bar> * 1 \<le> \<bar>v - q\<bar> * 2 ^ 53"
      by (rule mult_left_mono) simp_all
    then have "\<bar>v - q\<bar> \<le> \<bar>v - q\<bar> * 2 ^ 53"
      by (simp only: mult_1_right)
    from this err have "\<bar>v - q\<bar> \<le> q"
      by (rule order_trans)
    then have "v \<le> 2 * q"
      by simp
    with big have "(2::rat) ^ 1024 \<le> 2 * q"
      by simp
    then have "(2::rat) ^ 1023 \<le> q"
      by simp
    with exc show ?thesis
      unfolding q by (simp only: simp_thms)
  qed
qed

lemma true_div_1000:
  "true_div s 1000 = Inr x \<Longrightarrow> \<bar>x - of_int s / 1000\<bar> * 2 ^ 53 \<le> \<bar>of_int s / 1000\<bar>"
  "true_div s 1000 = Inl exc \<Longrightarrow>
     exc = OverflowError ''integer division result too large for a float'' \<and>
     (2::rat) ^ 1023 \<le> \<bar>of_int s / 1000\<bar>"
proof -
  have normal: "(of_nat 1000 :: rat) \<le> \<bar>of_int s\<bar> * 2 ^ 1022" if "s \<noteq> 0"
  proof -
    from that have "1 \<le> \<bar>s\<bar>"
      by simp
    then have "(1::rat) \<le> \<bar>of_int s\<bar>"
      by (metis of_int_1 of_int_abs of_int_le_iff)
    then have "(1::rat) * 1000 \<le> \<bar>of_int s\<bar> * 2 ^ 1022"
      by (intro mult_mono) simp_all
    then show ?thesis
      by simp
  qed
  show "\<bar>x - of_int s / 1000\<bar> * 2 ^ 53 \<le> \<bar>of_int s / 1000\<bar>" if "true_div s 1000 = Inr x"
  proof (cases "s = 0")
    case True
    with that show ?thesis
      by (simp add: true_div_0)
  next
    case False
    from true_div_error(1) [OF _ False normal [OF False] that] show ?thesis
      by simp
  qed
  show "exc = OverflowError ''integer division result too large for a float'' \<and>
     (2::rat) ^ 1023 \<le> \<bar>of_int s / 1000\<bar>" if "true_div s 1000 = Inl exc"
  proof (cases "s = 0")
    case True
    with that show ?thesis
      by (simp add: true_div_0)
  next
    case False
    from true_div_error(2) [OF _ False normal [OF False] that] show ?thesis
      by simp
  qed
qed

subsection \<open>The calendar\<close>

text \<open>
  Day numbers and dates: \<open>month_day\<close> finds the month and the day of every day of a year,
  \<open>ord2ymd\<close> is a right inverse of \<open>ymd2ord\<close> and yields dates of the calendar, and the
  last day number of the year 9999 is 3652059.
\<close>

lemma month_day_one:
  assumes "0 \<le> r" "r < 14" "r < (if is_leap y then 366 else 365)"
  shows "case month_day (is_leap y) r of (m, d) \<Rightarrow>
     days_before_month y m + d = r + 1 \<and> 1 \<le> m \<and> m \<le> 12 \<and> 1 \<le> d \<and> d \<le> days_in_month y m"
proof -
  have "(r + 50) div 32 = 1"
    by (rule div_nat_eqI) (use assms in simp_all)
  then show ?thesis
    using assms by (auto simp add: month_day_def days_before_month_def days_in_month_def Let_def)
qed

lemma month_day_two:
  assumes "14 \<le> r" "r < 46" "r < (if is_leap y then 366 else 365)"
  shows "case month_day (is_leap y) r of (m, d) \<Rightarrow>
     days_before_month y m + d = r + 1 \<and> 1 \<le> m \<and> m \<le> 12 \<and> 1 \<le> d \<and> d \<le> days_in_month y m"
proof -
  have "(r + 50) div 32 = 2"
    by (rule div_nat_eqI) (use assms in simp_all)
  then show ?thesis
    using assms by (auto simp add: month_day_def days_before_month_def days_in_month_def Let_def)
qed

lemma month_day_three:
  assumes "46 \<le> r" "r < 78" "r < (if is_leap y then 366 else 365)"
  shows "case month_day (is_leap y) r of (m, d) \<Rightarrow>
     days_before_month y m + d = r + 1 \<and> 1 \<le> m \<and> m \<le> 12 \<and> 1 \<le> d \<and> d \<le> days_in_month y m"
proof -
  have "(r + 50) div 32 = 3"
    by (rule div_nat_eqI) (use assms in simp_all)
  then show ?thesis
    using assms by (auto simp add: month_day_def days_before_month_def days_in_month_def Let_def)
qed

lemma month_day_four:
  assumes "78 \<le> r" "r < 110" "r < (if is_leap y then 366 else 365)"
  shows "case month_day (is_leap y) r of (m, d) \<Rightarrow>
     days_before_month y m + d = r + 1 \<and> 1 \<le> m \<and> m \<le> 12 \<and> 1 \<le> d \<and> d \<le> days_in_month y m"
proof -
  have "(r + 50) div 32 = 4"
    by (rule div_nat_eqI) (use assms in simp_all)
  then show ?thesis
    using assms by (auto simp add: month_day_def days_before_month_def days_in_month_def Let_def)
qed

lemma month_day_five:
  assumes "110 \<le> r" "r < 142" "r < (if is_leap y then 366 else 365)"
  shows "case month_day (is_leap y) r of (m, d) \<Rightarrow>
     days_before_month y m + d = r + 1 \<and> 1 \<le> m \<and> m \<le> 12 \<and> 1 \<le> d \<and> d \<le> days_in_month y m"
proof -
  have "(r + 50) div 32 = 5"
    by (rule div_nat_eqI) (use assms in simp_all)
  then show ?thesis
    using assms by (auto simp add: month_day_def days_before_month_def days_in_month_def Let_def)
qed

lemma month_day_six:
  assumes "142 \<le> r" "r < 174" "r < (if is_leap y then 366 else 365)"
  shows "case month_day (is_leap y) r of (m, d) \<Rightarrow>
     days_before_month y m + d = r + 1 \<and> 1 \<le> m \<and> m \<le> 12 \<and> 1 \<le> d \<and> d \<le> days_in_month y m"
proof -
  have "(r + 50) div 32 = 6"
    by (rule div_nat_eqI) (use assms in simp_all)
  then show ?thesis
    using assms by (auto simp add: month_day_def days_before_month_def days_in_month_def Let_def)
qed

lemma month_day_seven:
  assumes "174 \<le> r" "r < 206" "r < (if is_leap y then 366 else 365)"
  shows "case month_day (is_leap y) r of (m, d) \<Rightarrow>
     days_before_month y m + d = r + 1 \<and> 1 \<le> m \<and> m \<le> 12 \<and> 1 \<le> d \<and> d \<le> days_in_month y m"
proof -
  have "(r + 50) div 32 = 7"
    by (rule div_nat_eqI) (use assms in simp_all)
  then show ?thesis
    using assms by (auto simp add: month_day_def days_before_month_def days_in_month_def Let_def)
qed

lemma month_day_eight:
  assumes "206 \<le> r" "r < 238" "r < (if is_leap y then 366 else 365)"
  shows "case month_day (is_leap y) r of (m, d) \<Rightarrow>
     days_before_month y m + d = r + 1 \<and> 1 \<le> m \<and> m \<le> 12 \<and> 1 \<le> d \<and> d \<le> days_in_month y m"
proof -
  have "(r + 50) div 32 = 8"
    by (rule div_nat_eqI) (use assms in simp_all)
  then show ?thesis
    using assms by (auto simp add: month_day_def days_before_month_def days_in_month_def Let_def)
qed

lemma month_day_nine:
  assumes "238 \<le> r" "r < 270" "r < (if is_leap y then 366 else 365)"
  shows "case month_day (is_leap y) r of (m, d) \<Rightarrow>
     days_before_month y m + d = r + 1 \<and> 1 \<le> m \<and> m \<le> 12 \<and> 1 \<le> d \<and> d \<le> days_in_month y m"
proof -
  have "(r + 50) div 32 = 9"
    by (rule div_nat_eqI) (use assms in simp_all)
  then show ?thesis
    using assms by (auto simp add: month_day_def days_before_month_def days_in_month_def Let_def)
qed

lemma month_day_ten:
  assumes "270 \<le> r" "r < 302" "r < (if is_leap y then 366 else 365)"
  shows "case month_day (is_leap y) r of (m, d) \<Rightarrow>
     days_before_month y m + d = r + 1 \<and> 1 \<le> m \<and> m \<le> 12 \<and> 1 \<le> d \<and> d \<le> days_in_month y m"
proof -
  have "(r + 50) div 32 = 10"
    by (rule div_nat_eqI) (use assms in simp_all)
  then show ?thesis
    using assms by (auto simp add: month_day_def days_before_month_def days_in_month_def Let_def)
qed

lemma month_day_eleven:
  assumes "302 \<le> r" "r < 334" "r < (if is_leap y then 366 else 365)"
  shows "case month_day (is_leap y) r of (m, d) \<Rightarrow>
     days_before_month y m + d = r + 1 \<and> 1 \<le> m \<and> m \<le> 12 \<and> 1 \<le> d \<and> d \<le> days_in_month y m"
proof -
  have "(r + 50) div 32 = 11"
    by (rule div_nat_eqI) (use assms in simp_all)
  then show ?thesis
    using assms by (auto simp add: month_day_def days_before_month_def days_in_month_def Let_def)
qed

lemma month_day_twelve:
  assumes "334 \<le> r" "r < 366" "r < (if is_leap y then 366 else 365)"
  shows "case month_day (is_leap y) r of (m, d) \<Rightarrow>
     days_before_month y m + d = r + 1 \<and> 1 \<le> m \<and> m \<le> 12 \<and> 1 \<le> d \<and> d \<le> days_in_month y m"
proof -
  have "(r + 50) div 32 = 12"
    by (rule div_nat_eqI) (use assms in simp_all)
  then show ?thesis
    using assms by (auto simp add: month_day_def days_before_month_def days_in_month_def Let_def)
qed

lemma month_day_correct:
  assumes "r < (if is_leap y then 366 else 365)"
  shows "case month_day (is_leap y) r of (m, d) \<Rightarrow>
     days_before_month y m + d = r + 1 \<and> 1 \<le> m \<and> m \<le> 12 \<and> 1 \<le> d \<and> d \<le> days_in_month y m"
proof -
  have "r < 366"
    using assms by (simp split: if_splits)
  then consider "r < 14" | "14 \<le> r \<and> r < 46" | "46 \<le> r \<and> r < 78" | "78 \<le> r \<and> r < 110"
    | "110 \<le> r \<and> r < 142" | "142 \<le> r \<and> r < 174" | "174 \<le> r \<and> r < 206"
    | "206 \<le> r \<and> r < 238" | "238 \<le> r \<and> r < 270" | "270 \<le> r \<and> r < 302"
    | "302 \<le> r \<and> r < 334" | "334 \<le> r \<and> r < 366"
    by linarith
  then show ?thesis
  proof cases
    case 1 then show ?thesis using assms by (intro month_day_one) simp_all
  next
    case 2 then show ?thesis using assms by (intro month_day_two) simp_all
  next
    case 3 then show ?thesis using assms by (intro month_day_three) simp_all
  next
    case 4 then show ?thesis using assms by (intro month_day_four) simp_all
  next
    case 5 then show ?thesis using assms by (intro month_day_five) simp_all
  next
    case 6 then show ?thesis using assms by (intro month_day_six) simp_all
  next
    case 7 then show ?thesis using assms by (intro month_day_seven) simp_all
  next
    case 8 then show ?thesis using assms by (intro month_day_eight) simp_all
  next
    case 9 then show ?thesis using assms by (intro month_day_nine) simp_all
  next
    case 10 then show ?thesis using assms by (intro month_day_ten) simp_all
  next
    case 11 then show ?thesis using assms by (intro month_day_eleven) simp_all
  next
    case 12 then show ?thesis using assms by (intro month_day_twelve) simp_all
  qed
qed

lemma days_before_year_decomp:
  assumes "b \<le> 3" "c \<le> 24" "d \<le> 3"
  shows "days_before_year (400 * a + 100 * b + 4 * c + d + 1) =
         146097 * a + 36524 * b + 1461 * c + 365 * d"
proof -
  have "(400 * a + 100 * b + 4 * c + d) div 4 = 100 * a + 25 * b + c"
    by (rule div_nat_eqI) (use assms in simp_all)
  moreover have "(400 * a + 100 * b + 4 * c + d) div 100 = 4 * a + b"
    by (rule div_nat_eqI) (use assms in simp_all)
  moreover have "(400 * a + 100 * b + 4 * c + d) div 400 = a"
    by (rule div_nat_eqI) (use assms in simp_all)
  ultimately show ?thesis
    by (simp add: days_before_year_def)
qed

lemma year_mod_4: "(400 * a + 100 * b + 4 * c + d + 1) mod 4 = (d + 1) mod (4::nat)"
proof -
  have "400 * a + 100 * b + 4 * c + d + 1 = (d + 1) + 4 * (100 * a + 25 * b + c)"
    by simp
  then show ?thesis
    by (simp only: mod_mult_self2)
qed

lemma year_mod_100: "(400 * a + 100 * b + 4 * c + d + 1) mod 100 = (4 * c + d + 1) mod (100::nat)"
proof -
  have "400 * a + 100 * b + 4 * c + d + 1 = (4 * c + d + 1) + 100 * (4 * a + b)"
    by simp
  then show ?thesis
    by (simp only: mod_mult_self2)
qed

lemma year_mod_400: "(400 * a + 100 * b + 4 * c + d + 1) mod 400 = (100 * b + 4 * c + d + 1) mod (400::nat)"
proof -
  have "400 * a + 100 * b + 4 * c + d + 1 = (100 * b + 4 * c + d + 1) + 400 * a"
    by simp
  then show ?thesis
    by (simp only: mod_mult_self2)
qed

lemma mod_eq_0_iff_top:
  assumes "0 < x" "x \<le> n"
  shows "x mod n = 0 \<longleftrightarrow> x = (n::nat)"
  using assms by (cases "x = n") auto

lemma is_leap_decomp:
  assumes "b \<le> 3" "c \<le> 24" "d \<le> 3"
  shows "is_leap (400 * a + 100 * b + 4 * c + d + 1) \<longleftrightarrow> d = 3 \<and> (c \<noteq> 24 \<or> b = 3)"
proof -
  have "(d + 1) mod 4 = 0 \<longleftrightarrow> d + 1 = 4"
    using assms by (intro mod_eq_0_iff_top) simp_all
  moreover have "(4 * c + d + 1) mod 100 = 0 \<longleftrightarrow> 4 * c + d + 1 = 100"
    using assms by (intro mod_eq_0_iff_top) simp_all
  moreover have "(100 * b + 4 * c + d + 1) mod 400 = 0 \<longleftrightarrow> 100 * b + 4 * c + d + 1 = 400"
    using assms by (intro mod_eq_0_iff_top) simp_all
  ultimately show ?thesis
    using assms unfolding is_leap_def year_mod_4 year_mod_100 year_mod_400 by auto
qed

lemma ord2ymd_correct:
  assumes "1 \<le> n"
  shows "case ord2ymd n of (y, m, d) \<Rightarrow>
           ymd2ord y m d = n \<and> 1 \<le> y \<and> 1 \<le> m \<and> m \<le> 12 \<and> 1 \<le> d \<and> d \<le> days_in_month y m"
proof -
  define a where "a = (n - 1) div 146097"
  define r1 where "r1 = (n - 1) mod 146097"
  define b where "b = r1 div 36524"
  define r2 where "r2 = r1 mod 36524"
  define c where "c = r2 div 1461"
  define r3 where "r3 = r2 mod 1461"
  define d where "d = r3 div 365"
  define r4 where "r4 = r3 mod 365"
  have n: "n = 146097 * a + r1 + 1" and r1: "r1 < 146097"
    using assms by (simp_all add: a_def r1_def)
  have r1_eq: "r1 = 36524 * b + r2" and r2: "r2 < 36524"
    by (simp_all add: b_def r2_def)
  have r2_eq: "r2 = 1461 * c + r3" and r3: "r3 < 1461"
    by (simp_all add: c_def r3_def)
  have r3_eq: "r3 = 365 * d + r4" and r4: "r4 < 365"
    by (simp_all add: d_def r4_def)
  have ord: "ord2ymd n =
      (if d = 4 \<or> b = 4 then (a * 400 + 1 + b * 100 + c * 4 + d - 1, 12, 31)
       else (a * 400 + 1 + b * 100 + c * 4 + d, month_day (d = 3 \<and> (c \<noteq> 24 \<or> b = 3)) r4))"
    by (simp add: ord2ymd_def Let_def a_def r1_def b_def r2_def c_def r3_def d_def r4_def)
  have c24: "c \<le> 24"
    using r2 r2_eq by simp
  consider (century) "b = 4" | (leapday) "b \<le> 3" "d = 4" | (normal) "b \<le> 3" "d \<le> 3"
    using r1 r1_eq r3 r3_eq by linarith
  then show ?thesis
  proof cases
    case century
    then have "r2 = 0"
      using r1 r1_eq by simp
    then have z: "c = 0" "d = 0" "r4 = 0"
      using r2_eq r3_eq by simp_all
    have y: "a * 400 + 1 + b * 100 + c * 4 + d - 1 = 400 * a + 100 * 3 + 4 * 24 + 3 + 1"
      using century z by simp
    have "days_before_year (400 * a + 100 * 3 + 4 * 24 + 3 + 1) = 146097 * a + 36524 * 3 + 1461 * 24 + 365 * 3"
      by (rule days_before_year_decomp) simp_all
    moreover have "is_leap (400 * a + 100 * 3 + 4 * 24 + 3 + 1)"
      by (subst is_leap_decomp) simp_all
    ultimately show ?thesis
      using century z n r1_eq \<open>r2 = 0\<close> unfolding ord y
      by (simp add: ymd2ord_def days_before_month_def days_in_month_def)
  next
    case leapday
    then have "r4 = 0" and r3v: "r3 = 1460"
      using r3 r3_eq by simp_all
    have c23: "c \<le> 23"
      using r2 r2_eq r3v by simp
    have y: "a * 400 + 1 + b * 100 + c * 4 + d - 1 = 400 * a + 100 * b + 4 * c + 3 + 1"
      using leapday by simp
    have "days_before_year (400 * a + 100 * b + 4 * c + 3 + 1) = 146097 * a + 36524 * b + 1461 * c + 365 * 3"
      using leapday c24 by (intro days_before_year_decomp) simp_all
    moreover have "is_leap (400 * a + 100 * b + 4 * c + 3 + 1)"
      using leapday c23 by (subst is_leap_decomp) simp_all
    ultimately show ?thesis
      using leapday n r1_eq r2_eq r3v unfolding ord y
      by (simp add: ymd2ord_def days_before_month_def days_in_month_def)
  next
    case normal
    let ?y = "400 * a + 100 * b + 4 * c + d + 1"
    have y: "a * 400 + 1 + b * 100 + c * 4 + d = ?y"
      by simp
    have leap: "is_leap ?y \<longleftrightarrow> d = 3 \<and> (c \<noteq> 24 \<or> b = 3)"
      using normal c24 by (intro is_leap_decomp) simp_all
    have dby: "days_before_year ?y = 146097 * a + 36524 * b + 1461 * c + 365 * d"
      using normal c24 by (intro days_before_year_decomp) simp_all
    have "r4 < (if is_leap ?y then 366 else 365)"
      using r4 by simp
    from month_day_correct [OF this]
    have md: "case month_day (is_leap ?y) r4 of (m, dd) \<Rightarrow>
        days_before_month ?y m + dd = r4 + 1 \<and> 1 \<le> m \<and> m \<le> 12 \<and> 1 \<le> dd \<and> dd \<le> days_in_month ?y m" .
    have o: "ord2ymd n = (?y, month_day (is_leap ?y) r4)"
      using normal unfolding ord y leap by simp
    obtain m dd where md_eq: "month_day (is_leap ?y) r4 = (m, dd)"
      by (cases "month_day (is_leap ?y) r4")
    from md have m: "days_before_month ?y m + dd = r4 + 1" "1 \<le> m" "m \<le> 12" "1 \<le> dd"
        "dd \<le> days_in_month ?y m"
      unfolding md_eq by simp_all
    have "ymd2ord ?y m dd = n"
      unfolding ymd2ord_def dby using m(1) n r1_eq r2_eq r3_eq by linarith
    then show ?thesis
      unfolding o md_eq using m by simp
  qed
qed

lemma days_before_year_10000:
  assumes "10000 \<le> y"
  shows "3652059 \<le> days_before_year y"
  using assms unfolding days_before_year_def by arith

lemma ord2ymd_year_le:
  assumes "1 \<le> n" "n \<le> 3652059"
  shows "fst (ord2ymd n) \<le> 9999"
proof (rule ccontr)
  assume "\<not> fst (ord2ymd n) \<le> 9999"
  then have "3652059 \<le> days_before_year (fst (ord2ymd n))"
    by (intro days_before_year_10000) simp
  moreover from ord2ymd_correct [OF assms(1)]
  have "ymd2ord (fst (ord2ymd n)) (fst (snd (ord2ymd n))) (snd (snd (ord2ymd n))) = n"
    and "1 \<le> snd (snd (ord2ymd n))"
    by (simp_all add: case_prod_beta)
  ultimately show False
    using assms(2) by (simp add: ymd2ord_def)
qed

lemma sub_days_Inr:
  assumes "sub_days dt k = Inr f"
  shows "ymd2ord (year f) (month f) (day f) + k = ymd2ord (year dt) (month dt) (day dt)"
    and "1 \<le> year f" and "year f \<le> 9999" and "1 \<le> month f" and "month f \<le> 12"
    and "1 \<le> day f" and "day f \<le> days_in_month (year f) (month f)"
    and "hour f = hour dt" and "minute f = minute dt" and "second f = second dt"
    and "microsecond f = microsecond dt"
proof -
  let ?n = "ymd2ord (year dt) (month dt) (day dt) - k"
  from assms have k: "k < ymd2ord (year dt) (month dt) (day dt)" and le: "?n \<le> 3652059"
    and f: "f = dt\<lparr>year := fst (ord2ymd ?n), month := fst (snd (ord2ymd ?n)),
                    day := snd (snd (ord2ymd ?n))\<rparr>"
    by (simp_all add: sub_days_def Let_def split: if_splits)
  from k have n: "1 \<le> ?n"
    by simp
  from ord2ymd_correct [OF n]
  have c: "ymd2ord (fst (ord2ymd ?n)) (fst (snd (ord2ymd ?n))) (snd (snd (ord2ymd ?n))) = ?n"
    "1 \<le> fst (ord2ymd ?n)" "1 \<le> fst (snd (ord2ymd ?n))" "fst (snd (ord2ymd ?n)) \<le> 12"
    "1 \<le> snd (snd (ord2ymd ?n))"
    "snd (snd (ord2ymd ?n)) \<le> days_in_month (fst (ord2ymd ?n)) (fst (snd (ord2ymd ?n)))"
    by (simp_all add: case_prod_beta)
  show "ymd2ord (year f) (month f) (day f) + k = ymd2ord (year dt) (month dt) (day dt)"
    using c(1) k by (simp add: f)
  show "1 \<le> year f" "1 \<le> month f" "month f \<le> 12" "1 \<le> day f"
    "day f \<le> days_in_month (year f) (month f)"
    using c by (simp_all add: f)
  show "year f \<le> 9999"
    using ord2ymd_year_le [OF n le] by (simp add: f)
  show "hour f = hour dt" "minute f = minute dt" "second f = second dt"
    "microsecond f = microsecond dt"
    by (simp_all add: f)
qed

lemma sub_days_valid:
  assumes "valid_datetime dt" "sub_days dt k = Inr f"
  shows "valid_datetime f"
  using assms(1) sub_days_Inr [OF assms(2)] by (simp add: valid_datetime_def)

lemma sub_days_Inr_iff:
  "(\<exists>f. sub_days dt k = Inr f) \<longleftrightarrow>
     k < ymd2ord (year dt) (month dt) (day dt) \<and> ymd2ord (year dt) (month dt) (day dt) - k \<le> 3652059"
  by (simp add: sub_days_def Let_def)

subsection \<open>The request is posted as prepared\<close>

lemma get_klines_posts:
  assumes "prepare e symbol interval startTime endTime = Inr req"
  shows "get_klines e symbol interval startTime endTime =
     (case post e req of
        RequestFailed m \<Rightarrow> Inl (HTTPException 500 (''Error calling DhanHQ API: '' @ m))
      | NotJson m \<Rightarrow> Inl (NameError (''name '' @ sq @ ''json'' @ sq @ '' is not defined''))
      | Body dhan_data \<Rightarrow> transform (int_max_str_digits e) dhan_data)"
  using assms by (simp add: get_klines_def call_upstream_def module_globals_def split: upstream.splits)

lemma prepare_post:
  "prepare (e\<lparr>post := p\<rparr>) symbol interval startTime endTime =
   prepare e symbol interval startTime endTime"
  by (simp add: prepare_def find_instrument_def date_range_def dhan_request_def)

subsection \<open>The examples of the date range\<close>

lemma floor_log2_ratio_examples:
  "floor_log2_ratio 1700000000000 1000 = 30" "floor_log2_ratio 1700086400000 1000 = 30"
  "floor_log2_ratio 31000000000000 1000 = 34" "floor_log2_ratio 30999913600000 1000 = 34"
  by (simp_all add: floor_log2_ratio_def bit_length.simps Let_def)

lemma true_div_examples:
  "true_div 1700000000000 1000 = Inr 1700000000"
  "true_div 1700086400000 1000 = Inr 1700086400"
  "true_div (- 31000000000000) 1000 = Inr (- 31000000000)"
  "true_div (- 30999913600000) 1000 = Inr (- 30999913600)"
  by (simp_all add: true_div_def ratio_parts_def floor_log2_ratio_examples round_half_even_def Let_def)

lemma round_microseconds_0: "round_microseconds 0 = 0"
  by (simp add: round_microseconds_def Let_def)

lemma civil_date_examples:
  "civil_date 738838 = (2023, 11, 14)" "civil_date 738839 = (2023, 11, 15)"
  "civil_date 360366 = (987, 8, 25)" "civil_date 360367 = (987, 8, 26)"
  by (simp_all add: civil_date_def ord2ymd_def month_day_def Let_def)

lemma utc_fromtimestamp_examples:
  "utc_fromtimestamp 1700000000 =
     Inr \<lparr>year = 2023, month = 11, day = 14, hour = 22, minute = 13, second = 20, microsecond = 0\<rparr>"
  "utc_fromtimestamp 1700086400 =
     Inr \<lparr>year = 2023, month = 11, day = 15, hour = 22, minute = 13, second = 20, microsecond = 0\<rparr>"
  "utc_fromtimestamp (- 31000000000) =
     Inr \<lparr>year = 987, month = 8, day = 25, hour = 16, minute = 53, second = 20, microsecond = 0\<rparr>"
  "utc_fromtimestamp (- 30999913600) =
     Inr \<lparr>year = 987, month = 8, day = 26, hour = 16, minute = 53, second = 20, microsecond = 0\<rparr>"
  by (simp_all add: utc_fromtimestamp_def py_trunc_def round_microseconds_0 civil_date_examples Let_def)

lemma transform_two_candles:
  "transform 4300 two_candles =
     Inr [[PInt 1700000000000, PStr ''100.5'', PStr ''102'', PStr ''99.8'', PStr ''100.9'',
           PStr ''2000''],
          [PInt 1700000060000, PStr ''101'', PStr ''103'', PStr ''100'', PStr ''102'',
           PStr ''3000'']]"
  by (simp add: transform_eval two_candles_def int_of_str_1700000060 str_eval)

lemma expecting_env_fields [simp]:
  "post (expecting_env expected) req =
     (if req = expected then Body two_candles else RequestFailed ''unexpected request'')"
  "int_max_str_digits (expecting_env expected) = 4300"
  "script_df (expecting_env expected) = example_table"
  "now (expecting_env expected) = example_now"
  "fromtimestamp (expecting_env expected) = utc_fromtimestamp"
  "DHAN_ACCESS_TOKEN (expecting_env expected) = ''YOUR_DHAN_ACCESS_TOKEN_HERE''"
  by (simp_all add: expecting_env_def example_env_def)

lemma expecting_env_prepare:
  "prepare (expecting_env expected) symbol interval startTime endTime =
   prepare (example_env (RequestFailed ''unexpected request'')) symbol interval startTime endTime"
  by (simp add: expecting_env_def prepare_post)

lemma sub_days_examples:
  "sub_days (clock_at 1000 1 15) 30 = Inr (clock_at 999 12 16)"
  "sub_days (clock_at 2025 1 15) 30 = Inr (clock_at 2024 12 16)"
  "sub_days (clock_at 2024 3 30) 30 = Inr (clock_at 2024 2 29)"
  by (simp_all add: sub_days_def clock_at_def ymd2ord_def days_before_year_def
      days_before_month_def is_leap_def ord2ymd_def month_day_def Let_def)

lemma true_div_inexact: "true_div 1700000000123 1000 = Inr (7130316800515899 / 4194304)"
proof -
  have "floor_log2_ratio 1700000000123 1000 = 30"
    by (simp add: floor_log2_ratio_def bit_length.simps Let_def)
  then show ?thesis
    by (simp add: true_div_def ratio_parts_def round_half_even_def Let_def)
qed

subsection \<open>The transcoder\<close>

text \<open>
  C1, as the specification has it: for every upstream body whose six keys are bound to
  sequences, position \<open>i\<close> gives the row that starts with \<^verbatim>\<open>timestamp[i]*1000\<close>. The
  body with the single timestamp 1700000000.5 is such a body, and its row starts with
  1700000000000, which is not 1700000000.5 times 1000: the code applies \<^verbatim>\<open>int\<close> to the
  timestamp first.
\<close>

theorem fractional_timestamp_counterexample:
  "transform 4300 half_second =
     Inr [[PInt 1700000000000, PStr ''1'', PStr ''1'', PStr ''1'', PStr ''1'', PStr ''1'']] \<and>
   rat_of_int 1700000000000 \<noteq> float_value False 17000000005 (- 1) * 1000"
proof
  show "transform 4300 half_second =
     Inr [[PInt 1700000000000, PStr ''1'', PStr ''1'', PStr ''1'', PStr ''1'', PStr ''1'']]"
    by (simp add: transform_eval half_second_def str_eval py_trunc_half_second)
  show "rat_of_int 1700000000000 \<noteq> float_value False 17000000005 (- 1) * 1000"
    by (simp add: float_value_half_second)
qed

text \<open>
  C1, amended: for every upstream body whose six keys are bound to values that can be
  iterated (lists, text, dictionaries), with \<open>n\<close> the length of the shortest of the six
  sequences, if \<^verbatim>\<open>int\<close> accepts each of the first \<open>n\<close> timestamps, then the transcoder
  returns exactly \<open>n\<close> rows, and row \<open>i\<close> is
  \<^verbatim>\<open>[int(timestamp[i])*1000, str(open[i]), str(high[i]), str(low[i]), str(close[i]), str(volume[i])]\<close>.
\<close>

theorem transcoder_rows:
  assumes "getitem d ''timestamp'' = Inr a1" and "getitem d ''open'' = Inr a2"
    and "getitem d ''high'' = Inr a3" and "getitem d ''low'' = Inr a4"
    and "getitem d ''close'' = Inr a5" and "getitem d ''volume'' = Inr a6"
    and "py_iter a1 = Inr ts" and "py_iter a2 = Inr ps" and "py_iter a3 = Inr hs"
    and "py_iter a4 = Inr ls" and "py_iter a5 = Inr cs" and "py_iter a6 = Inr vs"
    and "n = Min {length ts, length ps, length hs, length ls, length cs, length vs}"
    and "\<forall>i<n. py_int maxd (ts ! i) = Inr (k i)"
  shows "transform maxd d =
           Inr (map (\<lambda>i. [PInt (k i * 1000), PStr (py_str (ps ! i)), PStr (py_str (hs ! i)),
                           PStr (py_str (ls ! i)), PStr (py_str (cs ! i)), PStr (py_str (vs ! i))])
                    [0..<n])"
proof -
  let ?rows = "map (\<lambda>i. [PInt (k i * 1000), PStr (py_str (ps ! i)), PStr (py_str (hs ! i)),
                           PStr (py_str (ls ! i)), PStr (py_str (cs ! i)), PStr (py_str (vs ! i))])
                    [0..<n]"
  have len: "length (zip6 ts ps hs ls cs vs) = n"
    using assms(13) by (simp add: length_zip6 min_def)
  have "list_all2 (\<lambda>tup row. kline_row maxd tup = Inr row) (zip6 ts ps hs ls cs vs) ?rows"
    unfolding list_all2_conv_all_nth
  proof (intro conjI allI impI)
    show "length (zip6 ts ps hs ls cs vs) = length ?rows"
      using len by simp
  next
    fix i
    assume i: "i < length (zip6 ts ps hs ls cs vs)"
    then have "i < n"
      using len by simp
    with assms(14) have "py_int maxd (ts ! i) = Inr (k i)"
      by simp
    with i \<open>i < n\<close> show "kline_row maxd (zip6 ts ps hs ls cs vs ! i) = Inr (?rows ! i)"
      by (simp add: nth_zip6 kline_row_eq_Inr)
  qed
  with assms(1-12) show ?thesis
    unfolding transform_Inr_iff by blast
qed

text \<open>
  On the two candles: the \<^verbatim>\<open>high\<close> column has a third element that no row shows, and
  the second timestamp is text that \<^verbatim>\<open>int\<close> reads.
\<close>

theorem transcoder_rows_witness:
  "transform 4300 two_candles =
     Inr [[PInt 1700000000000, PStr ''100.5'', PStr ''102'', PStr ''99.8'', PStr ''100.9'',
           PStr ''2000''],
          [PInt 1700000060000, PStr ''101'', PStr ''103'', PStr ''100'', PStr ''102'',
           PStr ''3000'']]"
proof -
  have n: "(2::nat) = Min {length [PInt 1700000000, PStr ''1700000060''],
      length [PFloat (Finite False 1005 (- 1)), PInt 101], length [PInt 102, PInt 103, PInt 104],
      length [PFloat (Finite False 998 (- 1)), PInt 100],
      length [PFloat (Finite False 1009 (- 1)), PInt 102], length [PInt 2000, PInt 3000]}"
    by simp
  have k: "\<forall>i<2. py_int 4300 ([PInt 1700000000, PStr ''1700000060''] ! i) =
      Inr ([1700000000, 1700000060] ! i)"
    by (simp add: less_Suc_eq numeral_2_eq_2 int_of_str_1700000060)
  have "transform 4300 two_candles =
      Inr (map (\<lambda>i. [PInt ([1700000000, 1700000060] ! i * 1000),
                      PStr (py_str ([PFloat (Finite False 1005 (- 1)), PInt 101] ! i)),
                      PStr (py_str ([PInt 102, PInt 103, PInt 104] ! i)),
                      PStr (py_str ([PFloat (Finite False 998 (- 1)), PInt 100] ! i)),
                      PStr (py_str ([PFloat (Finite False 1009 (- 1)), PInt 102] ! i)),
                      PStr (py_str ([PInt 2000, PInt 3000] ! i))]) [0..<2])"
    by (rule transcoder_rows [OF _ _ _ _ _ _ _ _ _ _ _ _ n k])
      (simp add: two_candles_def)+
  then show ?thesis
    by (simp add: upt_rec str_eval)
qed

subsection \<open>The example of the specification\<close>

text \<open>
  C2, as the specification has it: for the upstream body
  \<^verbatim>\<open>{"timestamp":[1700000000],"open":[100.5],"high":[101],"low":"99.8","close":[100.9],"volume":[2000]}\<close>
  the transcoder would give the single row with \<^verbatim>\<open>"99.8"\<close> in the fourth place. It
  does not: \<^verbatim>\<open>zip\<close> iterates the text \<^verbatim>\<open>"99.8"\<close> character by character, and the
  other five columns end after one element.
\<close>

theorem spec_example_row_counterexample:
  "transform 4300 spec_example \<noteq>
     Inr [[PInt 1700000000000, PStr ''100.5'', PStr ''101'', PStr ''99.8'', PStr ''100.9'',
           PStr ''2000'']]"
  by (simp add: transform_eval spec_example_def str_eval)

text \<open>
  C2, amended: for that body the transcoder gives exactly one row, the timestamp in
  milliseconds and every other field as text, where the field \<^verbatim>\<open>low\<close> is \<^verbatim>\<open>"9"\<close>, the
  first character of the text \<^verbatim>\<open>"99.8"\<close>.
\<close>

theorem spec_example_row:
  "transform maxd spec_example =
     Inr [[PInt 1700000000000, PStr ''100.5'', PStr ''101'', PStr ''9'', PStr ''100.9'',
           PStr ''2000'']]"
  by (simp add: transform_eval spec_example_def str_eval)

subsection \<open>The interval\<close>

text \<open>
  C3, as the specification has it: an interval without a decimal digit is refused with
  status 400, and otherwise the decimal digits are returned. The interval that consists
  of the superscript two (U+00B2) has no decimal digit, but \<^verbatim>\<open>str.isdigit\<close> holds of it:
  it is returned as it is, and the request is answered with status 200.
\<close>

theorem superscript_interval_counterexample:
  "filter is_decimal [CHR 0xB2] = [] \<and>
   parse_interval [CHR 0xB2] = Inr [CHR 0xB2] \<and>
   status_code (klines_endpoint (example_env (Body two_candles)) ''RELIANCE'' [CHR 0xB2] None None)
     = 200"
proof -
  have "prepare (example_env (Body two_candles)) ''RELIANCE'' [CHR 0xB2] None None =
     Inr \<lparr>url = ''https://api.dhan.co/v2/charts/intraday'',
          headers = [(''access-token'', ''YOUR_DHAN_ACCESS_TOKEN_HERE''),
                     (''Content-Type'', ''application/json''), (''Accept'', ''application/json'')],
          payload = [(''securityId'', ''2885''), (''exchangeSegment'', ''NSE_EQ''),
                     (''instrument'', ''EQUITY''), (''interval'', [CHR 0xB2]),
                     (''fromDate'', ''2024-02-14 10:00:00''), (''toDate'', ''2024-03-15 10:00:00'')]\<rparr>"
    by (simp add: prepare_def find_instrument_def example_env_def example_table_def date_range_def
        truthy_def sub_days_def example_now_def ymd2ord_def days_before_year_def
        days_before_month_def is_leap_def ord2ymd_def month_day_def Let_def parse_interval_def isdigit_def
        is_decimal_def dhan_request_def DHAN_API_URL_def strftime_def str_eval)
  then have "status_code (klines_endpoint (example_env (Body two_candles)) ''RELIANCE''
      [CHR 0xB2] None None) = 200"
    by (simp add: klines_endpoint_def get_klines_def call_upstream_def transform_eval
        two_candles_def int_of_str_1700000060 unprintable_def str_eval)
  then show ?thesis
    by (simp add: parse_interval_def isdigit_def is_decimal_def)
qed

text \<open>
  C3, amended: the characters kept are those of which \<^verbatim>\<open>str.isdigit\<close> holds, which are
  the decimal digits and further digit characters such as the superscripts two, three
  and one. If the interval has such a character, normalization returns exactly these
  characters in their order; if it has none, normalization fails, and the endpoint
  answers 400 with the interval in the detail once the symbol was found and the date
  range resolved. On an interval of ASCII characters the characters kept are exactly the
  decimal digits.
\<close>

theorem interval_normalization:
  "parse_interval interval =
     (if \<exists>c \<in> set interval. isdigit c then Inr (filter isdigit interval)
      else Inl (HTTPException 400 (''Invalid interval format: '' @ sq @ interval @ sq))) \<and>
   ((\<forall>c \<in> set interval. \<not> isdigit c) \<longrightarrow> find_instrument e symbol = Inr row \<longrightarrow>
      date_range e startTime endTime = Inr dates \<longrightarrow>
      klines_endpoint e symbol interval startTime endTime =
        JSONResponse 400
          (PDict [(''detail'', PStr (''Invalid interval format: '' @ sq @ interval @ sq))])) \<and>
   ((\<forall>c \<in> set interval. of_char c < (128::nat)) \<longrightarrow>
      filter isdigit interval = filter is_decimal interval)"
proof (intro conjI impI)
  show norm: "parse_interval interval =
     (if \<exists>c \<in> set interval. isdigit c then Inr (filter isdigit interval)
      else Inl (HTTPException 400 (''Invalid interval format: '' @ sq @ interval @ sq)))"
    by (auto simp: parse_interval_def Let_def filter_empty_conv)
  show "klines_endpoint e symbol interval startTime endTime =
        JSONResponse 400
          (PDict [(''detail'', PStr (''Invalid interval format: '' @ sq @ interval @ sq))])"
    if "\<forall>c \<in> set interval. \<not> isdigit c" and "find_instrument e symbol = Inr row"
      and "date_range e startTime endTime = Inr dates"
    using that norm by (simp add: klines_endpoint_def get_klines_def prepare_def)
  show "filter isdigit interval = filter is_decimal interval"
    if "\<forall>c \<in> set interval. of_char c < (128::nat)"
  proof (rule filter_cong [OF refl])
    fix c
    assume "c \<in> set interval"
    with that have "of_char c < (128::nat)"
      by simp
    then show "isdigit c = is_decimal c"
      by (auto simp: isdigit_def)
  qed
qed

theorem interval_normalization_witness:
  "parse_interval ''5m'' = Inr ''5'' \<and> parse_interval ''1d'' = Inr ''1'' \<and>
   klines_endpoint (example_env (Body two_candles)) ''RELIANCE'' ''abc'' None None =
     JSONResponse 400 (PDict [(''detail'', PStr (''Invalid interval format: '' @ sq @ ''abc'' @ sq))]) \<and>
   filter isdigit ''5m'' = filter is_decimal ''5m''"
proof -
  have no_digit: "\<forall>c \<in> set ''abc''. \<not> isdigit c"
    by (simp add: isdigit_def is_decimal_def)
  have ascii: "\<forall>c \<in> set ''5m''. of_char c < (128::nat)"
    by simp
  have found: "find_instrument (example_env (Body two_candles)) ''RELIANCE'' =
      Inr \<lparr>tradingSymbol = ''RELIANCE'', securityId = IntCell 2885,
           exchangeSegment = ''NSE_EQ'', instrument = ''EQUITY''\<rparr>"
    by (simp add: find_instrument_def example_env_def example_table_def)
  have range: "date_range (example_env (Body two_candles)) None None =
      Inr (example_now\<lparr>year := 2024, month := 2, day := 14\<rparr>, example_now)"
    by (simp add: date_range_def example_env_def truthy_def sub_days_def example_now_def
        ymd2ord_def days_before_year_def days_before_month_def is_leap_def ord2ymd_def month_day_def Let_def)
  show ?thesis
    using interval_normalization [of "''5m''"] interval_normalization [of "''1d''"]
      interval_normalization [of "''abc''" "example_env (Body two_candles)" "''RELIANCE''" _
        None None, THEN conjunct2, THEN conjunct1, THEN mp, OF no_digit, THEN mp, OF found,
        THEN mp, OF range]
      interval_normalization [of "''5m''", THEN conjunct2, THEN conjunct2, THEN mp, OF ascii]
    by (simp add: isdigit_def is_decimal_def)
qed

subsection \<open>The date range\<close>

text \<open>
  C4, as the specification states it, does not hold. The bounds
  \<^verbatim>\<open>startTime=-31000000000000\<close> and \<^verbatim>\<open>endTime=-30999913600000\<close> are both given and not 0;
  they are converted to 25 and 26 August of the year 987, dates of the library, and the
  request that is posted carries \<^verbatim>\<open>987-08-25 16:53:20\<close> and \<^verbatim>\<open>987-08-26 16:53:20\<close>,
  whose year has three digits.
  The default window does the same when the clock reads 15 January of the year 1000:
  30 days earlier is \<^verbatim>\<open>999-12-16 10:00:00\<close>.
\<close>

theorem year_987_counterexample:
  "date_range (example_env (Body two_candles)) (Some (- 31000000000000)) (Some (- 30999913600000)) =
     Inr (\<lparr>year = 987, month = 8, day = 25, hour = 16, minute = 53, second = 20, microsecond = 0\<rparr>,
          \<lparr>year = 987, month = 8, day = 26, hour = 16, minute = 53, second = 20, microsecond = 0\<rparr>) \<and>
   prepare (example_env (Body two_candles)) ''RELIANCE'' ''5m''
       (Some (- 31000000000000)) (Some (- 30999913600000)) =
     Inr (example_request ''2885'' ''NSE_EQ'' ''987-08-25 16:53:20'' ''987-08-26 16:53:20'') \<and>
   get_klines
       (expecting_env (example_request ''2885'' ''NSE_EQ'' ''987-08-25 16:53:20'' ''987-08-26 16:53:20''))
       ''RELIANCE'' ''5m'' (Some (- 31000000000000)) (Some (- 30999913600000)) =
     Inr [[PInt 1700000000000, PStr ''100.5'', PStr ''102'', PStr ''99.8'', PStr ''100.9'',
           PStr ''2000''],
          [PInt 1700000060000, PStr ''101'', PStr ''103'', PStr ''100'', PStr ''102'',
           PStr ''3000'']] \<and>
   valid_datetime
     \<lparr>year = 987, month = 8, day = 25, hour = 16, minute = 53, second = 20, microsecond = 0\<rparr> \<and>
   \<not> timestamp_text ''987-08-25 16:53:20'' \<and> \<not> timestamp_text ''987-08-26 16:53:20'' \<and>
   date_range ((example_env (Body two_candles))\<lparr>now := clock_at 1000 1 15\<rparr>) None None =
     Inr (clock_at 999 12 16, clock_at 1000 1 15) \<and>
   strftime (clock_at 999 12 16) = ''999-12-16 10:00:00'' \<and>
   \<not> timestamp_text ''999-12-16 10:00:00''"
proof -
  let ?e = "example_env (Body two_candles)"
  have dates: "date_range (example_env answer) (Some (- 31000000000000)) (Some (- 30999913600000)) =
     Inr (\<lparr>year = 987, month = 8, day = 25, hour = 16, minute = 53, second = 20, microsecond = 0\<rparr>,
          \<lparr>year = 987, month = 8, day = 26, hour = 16, minute = 53, second = 20, microsecond = 0\<rparr>)"
    for answer
    by (simp add: date_range_def truthy_def example_env_def true_div_examples
        utc_fromtimestamp_examples)
  have req: "prepare (example_env answer) ''RELIANCE'' ''5m''
       (Some (- 31000000000000)) (Some (- 30999913600000)) =
     Inr (example_request ''2885'' ''NSE_EQ'' ''987-08-25 16:53:20'' ''987-08-26 16:53:20'')"
    for answer
    by (simp add: prepare_def dates example_request_def)
      (simp add: find_instrument_def example_env_def example_table_def parse_interval_def
        isdigit_def is_decimal_def dhan_request_def DHAN_API_URL_def strftime_def str_eval)
  have posted: "get_klines
       (expecting_env (example_request ''2885'' ''NSE_EQ'' ''987-08-25 16:53:20'' ''987-08-26 16:53:20''))
       ''RELIANCE'' ''5m'' (Some (- 31000000000000)) (Some (- 30999913600000)) =
     Inr [[PInt 1700000000000, PStr ''100.5'', PStr ''102'', PStr ''99.8'', PStr ''100.9'',
           PStr ''2000''],
          [PInt 1700000060000, PStr ''101'', PStr ''103'', PStr ''100'', PStr ''102'',
           PStr ''3000'']]"
    by (simp add: get_klines_def expecting_env_prepare req call_upstream_def transform_two_candles)
  have window: "date_range (?e\<lparr>now := clock_at 1000 1 15\<rparr>) None None =
     Inr (clock_at 999 12 16, clock_at 1000 1 15)"
    by (simp add: date_range_def truthy_def sub_days_examples [simplified])
  have printed: "strftime (clock_at 999 12 16) = ''999-12-16 10:00:00''"
    by (simp add: strftime_def clock_at_def str_eval)
  have shape: "\<not> timestamp_text ''987-08-25 16:53:20''" "\<not> timestamp_text ''987-08-26 16:53:20''"
    "\<not> timestamp_text ''999-12-16 10:00:00''"
    by (simp_all add: timestamp_text_def)
  have valid: "valid_datetime
     \<lparr>year = 987, month = 8, day = 25, hour = 16, minute = 53, second = 20, microsecond = 0\<rparr>"
    by (simp add: valid_datetime_def days_in_month_def)
  show ?thesis
    using dates [of "Body two_candles"] req [of "Body two_candles"] posted window printed shape
      valid
    by simp
qed

text \<open>
  C4, amended. The caller's bounds are used exactly when \<^verbatim>\<open>startTime\<close> and \<^verbatim>\<open>endTime\<close>
  are both given and both different from 0: each is divided by 1000 as a float, which
  is within one part in \<open>2\<^sup>5\<^sup>3\<close> of the number of seconds, and the quotient converted
  to local time, \<^verbatim>\<open>startTime\<close> first. In every other case (a bound missing, or a bound
  equal to 0) the bounds and the conversion play no part, as the clock plays none in
  the first case: \<^verbatim>\<open>to\<close> is the current local time and \<^verbatim>\<open>from\<close> is
  the date of the calendar 30 days before it, at the same time of day; this fails, with
  \<^verbatim>\<open>OverflowError\<close>, exactly when the clock reads a date within 30 days of 0001-01-01 or
  the day reached is after 9999-12-31. The request that is posted carries the two
  date-times as \<^verbatim>\<open>strftime('%Y-%m-%d %H:%M:%S')\<close> prints them, and that text has the
  shape \<^verbatim>\<open>YYYY-MM-DD HH:MM:SS\<close> for a date-time of the library from the year 1000 on.
\<close>

theorem date_range_resolution:
  "(\<forall>s t. startTime = Some s \<and> endTime = Some t \<and> s \<noteq> 0 \<and> t \<noteq> 0 \<longrightarrow>
      date_range e startTime endTime =
        bind (true_div s 1000) (\<lambda>start_seconds.
        bind (fromtimestamp e start_seconds) (\<lambda>from_date.
        bind (true_div t 1000) (\<lambda>end_seconds.
        bind (fromtimestamp e end_seconds) (\<lambda>to_date. Inr (from_date, to_date))))) \<and>
      (\<forall>clock. date_range (e\<lparr>now := clock\<rparr>) startTime endTime =
         date_range e startTime endTime)) \<and>
   (\<forall>ms x. true_div ms 1000 = Inr x \<longrightarrow>
      \<bar>x - of_int ms / 1000\<bar> * 2 ^ 53 \<le> \<bar>of_int ms / 1000\<bar>) \<and>
   (\<forall>ms exc. true_div ms 1000 = Inl exc \<longrightarrow>
      exc = OverflowError ''integer division result too large for a float'' \<and>
      (2::rat) ^ 1023 \<le> \<bar>of_int ms / 1000\<bar>) \<and>
   (startTime = None \<or> startTime = Some 0 \<or> endTime = None \<or> endTime = Some 0 \<longrightarrow>
      date_range e startTime endTime =
        bind (sub_days (now e) 30) (\<lambda>from_date. Inr (from_date, now e)) \<and>
      (\<forall>from_date to_date. date_range e startTime endTime = Inr (from_date, to_date) \<longrightarrow>
         to_date = now e \<and>
         ymd2ord (year from_date) (month from_date) (day from_date) + 30 =
           ymd2ord (year (now e)) (month (now e)) (day (now e)) \<and>
         1 \<le> month from_date \<and> month from_date \<le> 12 \<and> 1 \<le> day from_date \<and>
         day from_date \<le> days_in_month (year from_date) (month from_date) \<and>
         hour from_date = hour (now e) \<and> minute from_date = minute (now e) \<and>
         second from_date = second (now e) \<and> microsecond from_date = microsecond (now e) \<and>
         (valid_datetime (now e) \<longrightarrow> valid_datetime from_date)) \<and>
      ((\<exists>from_date. date_range e startTime endTime = Inr (from_date, now e)) \<longleftrightarrow>
         30 < ymd2ord (year (now e)) (month (now e)) (day (now e)) \<and>
         ymd2ord (year (now e)) (month (now e)) (day (now e)) - 30 \<le> 3652059) \<and>
      (\<forall>exc. date_range e startTime endTime = Inl exc \<longrightarrow>
         exc = OverflowError ''date value out of range'') \<and>
      date_range e startTime endTime = date_range e None None \<and>
      (\<forall>conversion. date_range (e\<lparr>fromtimestamp := conversion\<rparr>) startTime endTime =
         date_range e startTime endTime)) \<and>
   (\<forall>req. prepare e symbol interval startTime endTime = Inr req \<longrightarrow>
      (\<exists>from_date to_date.
         date_range e startTime endTime = Inr (from_date, to_date) \<and>
         map_of (payload req) ''fromDate'' = Some (strftime from_date) \<and>
         map_of (payload req) ''toDate'' = Some (strftime to_date) \<and>
         (valid_datetime from_date \<and> 1000 \<le> year from_date \<longrightarrow>
            timestamp_text (strftime from_date)) \<and>
         (valid_datetime to_date \<and> 1000 \<le> year to_date \<longrightarrow>
            timestamp_text (strftime to_date))) \<and>
      get_klines e symbol interval startTime endTime =
        (case post e req of
           RequestFailed m \<Rightarrow> Inl (HTTPException 500 (''Error calling DhanHQ API: '' @ m))
         | NotJson m \<Rightarrow> Inl (NameError (''name '' @ sq @ ''json'' @ sq @ '' is not defined''))
         | Body dhan_data \<Rightarrow> transform (int_max_str_digits e) dhan_data))"
proof (intro conjI allI impI)
  fix s t
  assume given: "startTime = Some s \<and> endTime = Some t \<and> s \<noteq> 0 \<and> t \<noteq> 0"
  then show "date_range (e\<lparr>now := clock\<rparr>) startTime endTime = date_range e startTime endTime"
    for clock
    by (simp add: date_range_def truthy_def)
  from given show "date_range e startTime endTime =
        bind (true_div s 1000) (\<lambda>start_seconds.
        bind (fromtimestamp e start_seconds) (\<lambda>from_date.
        bind (true_div t 1000) (\<lambda>end_seconds.
        bind (fromtimestamp e end_seconds) (\<lambda>to_date. Inr (from_date, to_date)))))"
    by (simp add: date_range_def truthy_def)
next
  fix ms x
  assume "true_div ms 1000 = Inr x"
  then show "\<bar>x - of_int ms / 1000\<bar> * 2 ^ 53 \<le> \<bar>of_int ms / 1000\<bar>"
    by (rule true_div_1000)
next
  fix ms exc
  assume overflow: "true_div ms 1000 = Inl exc"
  show "exc = OverflowError ''integer division result too large for a float''"
    using true_div_1000(2) [OF overflow] by simp
  show "(2::rat) ^ 1023 \<le> \<bar>of_int ms / 1000\<bar>"
    using true_div_1000(2) [OF overflow] by (simp only:)
next
  assume "startTime = None \<or> startTime = Some 0 \<or> endTime = None \<or> endTime = Some 0"
  then show window: "date_range e startTime endTime =
        bind (sub_days (now e) 30) (\<lambda>from_date. Inr (from_date, now e))"
    by (auto simp: date_range_def truthy_def)
  show "((\<exists>from_date. date_range e startTime endTime = Inr (from_date, now e)) \<longleftrightarrow>
         30 < ymd2ord (year (now e)) (month (now e)) (day (now e)) \<and> ymd2ord (year (now e)) (month (now e)) (day (now e)) - 30 \<le> 3652059)"
    unfolding window using sub_days_Inr_iff [of "now e" 30] by (simp add: bind_eq_Inr)
  show "exc = OverflowError ''date value out of range''"
    if "date_range e startTime endTime = Inl exc" for exc
    using that unfolding window by (auto simp: bind_eq_Inl sub_days_def Let_def split: if_splits)
  show "date_range e startTime endTime = date_range e None None"
    unfolding window by (simp add: date_range_def truthy_def)
  show "date_range (e\<lparr>fromtimestamp := conversion\<rparr>) startTime endTime =
      date_range e startTime endTime" for conversion
    using \<open>startTime = None \<or> startTime = Some 0 \<or> endTime = None \<or> endTime = Some 0\<close>
    by (auto simp: date_range_def truthy_def)
  fix from_date to_date
  assume "date_range e startTime endTime = Inr (from_date, to_date)"
  then have sub: "sub_days (now e) 30 = Inr from_date" and to: "to_date = now e"
    unfolding window by (auto simp: bind_eq_Inr)
  show "to_date = now e"
    by (rule to)
  show "ymd2ord (year from_date) (month from_date) (day from_date) + 30 = ymd2ord (year (now e)) (month (now e)) (day (now e))"
    by (rule sub_days_Inr(1) [OF sub])
  show "1 \<le> month from_date" "month from_date \<le> 12" "1 \<le> day from_date"
    "day from_date \<le> days_in_month (year from_date) (month from_date)"
    by (rule sub_days_Inr [OF sub])+
  show "hour from_date = hour (now e)" "minute from_date = minute (now e)"
    "second from_date = second (now e)" "microsecond from_date = microsecond (now e)"
    by (rule sub_days_Inr [OF sub])+
  show "valid_datetime from_date" if "valid_datetime (now e)"
    using that sub by (rule sub_days_valid)
next
  fix req
  assume prepared: "prepare e symbol interval startTime endTime = Inr req"
  then obtain row dates parsed_interval where
    dates: "date_range e startTime endTime = Inr dates" and
    req: "req = dhan_request e row parsed_interval (strftime (fst dates)) (strftime (snd dates))"
    by (auto simp: prepare_def bind_eq_Inr)
  show "(\<exists>from_date to_date.
         date_range e startTime endTime = Inr (from_date, to_date) \<and>
         map_of (payload req) ''fromDate'' = Some (strftime from_date) \<and>
         map_of (payload req) ''toDate'' = Some (strftime to_date) \<and>
         (valid_datetime from_date \<and> 1000 \<le> year from_date \<longrightarrow>
            timestamp_text (strftime from_date)) \<and>
         (valid_datetime to_date \<and> 1000 \<le> year to_date \<longrightarrow>
            timestamp_text (strftime to_date)))"
  proof (intro exI conjI impI)
    show "date_range e startTime endTime = Inr (fst dates, snd dates)"
      using dates by simp
    show "map_of (payload req) ''fromDate'' = Some (strftime (fst dates))"
      and "map_of (payload req) ''toDate'' = Some (strftime (snd dates))"
      by (simp_all add: req dhan_request_def)
    show "timestamp_text (strftime (fst dates))"
      if "valid_datetime (fst dates) \<and> 1000 \<le> year (fst dates)"
      using that by (simp add: strftime_shape)
    show "timestamp_text (strftime (snd dates))"
      if "valid_datetime (snd dates) \<and> 1000 \<le> year (snd dates)"
      using that by (simp add: strftime_shape)
  qed
  show "get_klines e symbol interval startTime endTime =
        (case post e req of
           RequestFailed m \<Rightarrow> Inl (HTTPException 500 (''Error calling DhanHQ API: '' @ m))
         | NotJson m \<Rightarrow> Inl (NameError (''name '' @ sq @ ''json'' @ sq @ '' is not defined''))
         | Body dhan_data \<Rightarrow> transform (int_max_str_digits e) dhan_data)"
    by (rule get_klines_posts [OF prepared])
qed

text \<open>
  On the example: both bounds given (14 and 15 November 2023), and the request posted
  for them; only \<^verbatim>\<open>startTime\<close> given; \<^verbatim>\<open>startTime\<close> equal to 0; only \<^verbatim>\<open>endTime\<close> given,
  and the request posted, 30 days back from 15 March 2024; the default window across the
  end of a year and onto a leap day; a clock that reads 30 January of the year 1; and
  a number of milliseconds whose quotient by 1000 is not a float.
\<close>

theorem date_range_resolution_witness:
  "date_range (example_env (Body two_candles)) (Some 1700000000000) (Some 1700086400000) =
     Inr (\<lparr>year = 2023, month = 11, day = 14, hour = 22, minute = 13, second = 20, microsecond = 0\<rparr>,
          \<lparr>year = 2023, month = 11, day = 15, hour = 22, minute = 13, second = 20, microsecond = 0\<rparr>) \<and>
   get_klines
       (expecting_env (example_request ''2885'' ''NSE_EQ'' ''2023-11-14 22:13:20'' ''2023-11-15 22:13:20''))
       ''RELIANCE'' ''5m'' (Some 1700000000000) (Some 1700086400000) =
     Inr [[PInt 1700000000000, PStr ''100.5'', PStr ''102'', PStr ''99.8'', PStr ''100.9'',
           PStr ''2000''],
          [PInt 1700000060000, PStr ''101'', PStr ''103'', PStr ''100'', PStr ''102'',
           PStr ''3000'']] \<and>
   date_range (example_env (Body two_candles)) (Some 1700000000000) None =
     Inr (example_now\<lparr>year := 2024, month := 2, day := 14\<rparr>, example_now) \<and>
   date_range (example_env (Body two_candles)) (Some 0) (Some 1700086400000) =
     Inr (example_now\<lparr>year := 2024, month := 2, day := 14\<rparr>, example_now) \<and>
   get_klines
       (expecting_env (example_request ''2885'' ''NSE_EQ'' ''2024-02-14 10:00:00'' ''2024-03-15 10:00:00''))
       ''RELIANCE'' ''5m'' None (Some 1700086400000) =
     Inr [[PInt 1700000000000, PStr ''100.5'', PStr ''102'', PStr ''99.8'', PStr ''100.9'',
           PStr ''2000''],
          [PInt 1700000060000, PStr ''101'', PStr ''103'', PStr ''100'', PStr ''102'',
           PStr ''3000'']] \<and>
   timestamp_text ''2024-02-14 10:00:00'' \<and> timestamp_text ''2024-03-15 10:00:00'' \<and>
   date_range ((example_env (Body two_candles))\<lparr>now := clock_at 2025 1 15\<rparr>) None None =
     Inr (clock_at 2024 12 16, clock_at 2025 1 15) \<and>
   date_range ((example_env (Body two_candles))\<lparr>now := clock_at 2024 3 30\<rparr>) None None =
     Inr (clock_at 2024 2 29, clock_at 2024 3 30) \<and>
   date_range ((example_env (Body two_candles))\<lparr>now := clock_at 1 1 30\<rparr>) None None =
     Inl (OverflowError ''date value out of range'') \<and>
   true_div 1700000000123 1000 = Inr (7130316800515899 / 4194304) \<and>
   \<bar>7130316800515899 / 4194304 - 1700000000123 / 1000\<bar> * 2 ^ 53 \<le> (1700000000123 / 1000 :: rat)"
proof -
  let ?e = "example_env (Body two_candles)"
  let ?bounds = "expecting_env
    (example_request ''2885'' ''NSE_EQ'' ''2023-11-14 22:13:20'' ''2023-11-15 22:13:20'')"
  let ?window = "expecting_env
    (example_request ''2885'' ''NSE_EQ'' ''2024-02-14 10:00:00'' ''2024-03-15 10:00:00'')"
  have env: "now ?e = example_now" "fromtimestamp ?e = utc_fromtimestamp"
    by (simp_all add: example_env_def)
  have sub: "sub_days example_now 30 = Inr (example_now\<lparr>year := 2024, month := 2, day := 14\<rparr>)"
    by (simp add: sub_days_def example_now_def ymd2ord_def days_before_year_def
        days_before_month_def is_leap_def ord2ymd_def month_day_def Let_def)
  have both: "date_range ?e (Some 1700000000000) (Some 1700086400000) =
     Inr (\<lparr>year = 2023, month = 11, day = 14, hour = 22, minute = 13, second = 20, microsecond = 0\<rparr>,
          \<lparr>year = 2023, month = 11, day = 15, hour = 22, minute = 13, second = 20, microsecond = 0\<rparr>)"
    using date_range_resolution [of "Some 1700000000000" "Some 1700086400000" ?e,
        THEN conjunct1, rule_format, of 1700000000000 1700086400000]
    by (simp add: env true_div_examples utc_fromtimestamp_examples)
  have one: "date_range ?e (Some 1700000000000) None =
     Inr (example_now\<lparr>year := 2024, month := 2, day := 14\<rparr>, example_now)"
    using date_range_resolution [of "Some 1700000000000" None ?e,
        THEN conjunct2, THEN conjunct2, THEN conjunct2, THEN conjunct1, THEN mp, THEN conjunct1]
    by (simp add: env sub)
  have zero: "date_range ?e (Some 0) (Some 1700086400000) =
     Inr (example_now\<lparr>year := 2024, month := 2, day := 14\<rparr>, example_now)"
    using date_range_resolution [of "Some 0" "Some 1700086400000" ?e,
        THEN conjunct2, THEN conjunct2, THEN conjunct2, THEN conjunct1, THEN mp, THEN conjunct1]
    by (simp add: env sub)
  have bounds_req: "prepare ?bounds ''RELIANCE'' ''5m'' (Some 1700000000000) (Some 1700086400000) =
     Inr (example_request ''2885'' ''NSE_EQ'' ''2023-11-14 22:13:20'' ''2023-11-15 22:13:20'')"
    by (simp add: prepare_def date_range_def truthy_def true_div_examples
        utc_fromtimestamp_examples example_request_def)
      (simp add: find_instrument_def example_table_def parse_interval_def
        isdigit_def is_decimal_def dhan_request_def DHAN_API_URL_def strftime_def str_eval)
  have window_req: "prepare ?window ''RELIANCE'' ''5m'' None (Some 1700086400000) =
     Inr (example_request ''2885'' ''NSE_EQ'' ''2024-02-14 10:00:00'' ''2024-03-15 10:00:00'')"
    by (simp add: prepare_def date_range_def truthy_def sub example_request_def)
      (simp add: find_instrument_def example_table_def parse_interval_def example_now_def
        isdigit_def is_decimal_def dhan_request_def DHAN_API_URL_def strftime_def str_eval)
  note bounds_posted = date_range_resolution [of "Some 1700000000000" "Some 1700086400000"
      ?bounds "''RELIANCE''" "''5m''", THEN conjunct2, THEN conjunct2, THEN conjunct2, THEN conjunct2, rule_format, OF bounds_req]
  note window_posted = date_range_resolution [of None "Some 1700086400000"
      ?window "''RELIANCE''" "''5m''", THEN conjunct2, THEN conjunct2, THEN conjunct2, THEN conjunct2, rule_format, OF window_req]
  have posted: "get_klines ?bounds ''RELIANCE'' ''5m'' (Some 1700000000000) (Some 1700086400000) =
     Inr [[PInt 1700000000000, PStr ''100.5'', PStr ''102'', PStr ''99.8'', PStr ''100.9'',
           PStr ''2000''],
          [PInt 1700000060000, PStr ''101'', PStr ''103'', PStr ''100'', PStr ''102'',
           PStr ''3000'']]"
    "get_klines ?window ''RELIANCE'' ''5m'' None (Some 1700086400000) =
     Inr [[PInt 1700000000000, PStr ''100.5'', PStr ''102'', PStr ''99.8'', PStr ''100.9'',
           PStr ''2000''],
          [PInt 1700000060000, PStr ''101'', PStr ''103'', PStr ''100'', PStr ''102'',
           PStr ''3000'']]"
    using bounds_posted [THEN conjunct2] window_posted [THEN conjunct2]
    by (simp_all add: transform_two_candles)
  from window_posted [THEN conjunct1] obtain from_date to_date where
    r: "date_range ?window None (Some 1700086400000) = Inr (from_date, to_date)" and
    f: "map_of (payload (example_request ''2885'' ''NSE_EQ'' ''2024-02-14 10:00:00''
          ''2024-03-15 10:00:00'')) ''fromDate'' = Some (strftime from_date)" and
    t: "map_of (payload (example_request ''2885'' ''NSE_EQ'' ''2024-02-14 10:00:00''
          ''2024-03-15 10:00:00'')) ''toDate'' = Some (strftime to_date)" and
    fs: "valid_datetime from_date \<and> 1000 \<le> year from_date \<longrightarrow> timestamp_text (strftime from_date)" and
    ts: "valid_datetime to_date \<and> 1000 \<le> year to_date \<longrightarrow> timestamp_text (strftime to_date)"
    by blast
  have "date_range ?window None (Some 1700086400000) =
      Inr (example_now\<lparr>year := 2024, month := 2, day := 14\<rparr>, example_now)"
    by (simp add: date_range_def truthy_def sub)
  with r have eq: "from_date = example_now\<lparr>year := 2024, month := 2, day := 14\<rparr>"
    "to_date = example_now"
    by simp_all
  have "valid_datetime from_date \<and> 1000 \<le> year from_date"
    "valid_datetime to_date \<and> 1000 \<le> year to_date"
    by (simp_all add: eq valid_datetime_def example_now_def days_in_month_def is_leap_def)
  with fs ts f t have shape: "timestamp_text ''2024-02-14 10:00:00''"
    "timestamp_text ''2024-03-15 10:00:00''"
    by (simp_all add: example_request_def)
  have clocks: "date_range (?e\<lparr>now := clock_at 2025 1 15\<rparr>) None None =
      Inr (clock_at 2024 12 16, clock_at 2025 1 15)"
    "date_range (?e\<lparr>now := clock_at 2024 3 30\<rparr>) None None =
      Inr (clock_at 2024 2 29, clock_at 2024 3 30)"
    using date_range_resolution [of None None "?e\<lparr>now := clock_at 2025 1 15\<rparr>",
        THEN conjunct2, THEN conjunct2, THEN conjunct2, THEN conjunct1, THEN mp, THEN conjunct1]
      date_range_resolution [of None None "?e\<lparr>now := clock_at 2024 3 30\<rparr>",
        THEN conjunct2, THEN conjunct2, THEN conjunct2, THEN conjunct1, THEN mp, THEN conjunct1]
    by (simp_all add: sub_days_examples [simplified])
  note first_month = date_range_resolution [of None None "?e\<lparr>now := clock_at 1 1 30\<rparr>",
      THEN conjunct2, THEN conjunct2, THEN conjunct2, THEN conjunct1, THEN mp, OF disjI1 [OF refl]]
  have day_30: "ymd2ord (year (clock_at 1 1 30)) (month (clock_at 1 1 30)) (day (clock_at 1 1 30)) = 30"
    by (simp add: clock_at_def ymd2ord_def days_before_year_def days_before_month_def)
  from first_month [THEN conjunct2, THEN conjunct2, THEN conjunct1]
  have none: "\<not> (\<exists>from_date. date_range (?e\<lparr>now := clock_at 1 1 30\<rparr>) None None =
      Inr (from_date, clock_at 1 1 30))"
    using day_30 by simp
  have "date_range (?e\<lparr>now := clock_at 1 1 30\<rparr>) None None =
      Inl (OverflowError ''date value out of range'')"
  proof (cases "date_range (?e\<lparr>now := clock_at 1 1 30\<rparr>) None None")
    case (Inl exc)
    with first_month [THEN conjunct2, THEN conjunct2, THEN conjunct2, THEN conjunct1] show ?thesis
      by simp
  next
    case (Inr dates)
    with first_month [THEN conjunct2, THEN conjunct1, rule_format, of "fst dates" "snd dates"]
    have "snd dates = clock_at 1 1 30"
      by simp
    with Inr none show ?thesis
      by (cases dates) simp
  qed
  moreover have "\<bar>7130316800515899 / 4194304 - 1700000000123 / 1000\<bar> * 2 ^ 53 \<le>
      (1700000000123 / 1000 :: rat)"
    using date_range_resolution [of None None ?e, THEN conjunct2, THEN conjunct1, rule_format,
        OF true_div_inexact]
    by simp
  ultimately show ?thesis
    using both one zero posted shape clocks true_div_inexact by simp
qed
subsection \<open>The symbol lookup\<close>

text \<open>
  C5: a symbol that is not, character for character, the \<^verbatim>\<open>tradingSymbol\<close> of a row is
  answered with status 404 and a detail that contains the symbol. For a symbol that is
  in the table, the row used is the first one with that symbol in the order of the
  table: when the date range and the interval are accepted, the request is built from
  that row, its payload carries the \<^verbatim>\<open>securityId\<close>, \<^verbatim>\<open>exchangeSegment\<close> and \<^verbatim>\<open>instrument\<close>
  of that row, and it is this request that \<^verbatim>\<open>get_klines\<close> posts and whose answer it
  works on.
\<close>

theorem symbol_lookup:
  "(symbol \<notin> tradingSymbol ` set (script_df e) \<longrightarrow>
      get_klines e symbol interval startTime endTime =
        Inl (HTTPException 404
               (''Instrument with trading symbol '' @ sq @ symbol @ sq @ '' not found.'')) \<and>
      klines_endpoint e symbol interval startTime endTime =
        JSONResponse 404
          (PDict [(''detail'',
                   PStr (''Instrument with trading symbol '' @ sq @ symbol @ sq @ '' not found.''))])) \<and>
   (symbol \<in> tradingSymbol ` set (script_df e) \<longrightarrow>
      (\<exists>before row after.
         script_df e = before @ row # after \<and> tradingSymbol row = symbol \<and>
         symbol \<notin> tradingSymbol ` set before \<and>
         find_instrument e symbol = Inr row \<and>
         (\<forall>dates parsed_interval.
            date_range e startTime endTime = Inr dates \<and>
            parse_interval interval = Inr parsed_interval \<longrightarrow>
            prepare e symbol interval startTime endTime =
              Inr (dhan_request e row parsed_interval (strftime (fst dates)) (strftime (snd dates)))) \<and>
         (\<forall>req. prepare e symbol interval startTime endTime = Inr req \<longrightarrow>
            map_of (payload req) ''securityId'' = Some (str_cell (securityId row)) \<and>
            map_of (payload req) ''exchangeSegment'' = Some (exchangeSegment row) \<and>
            map_of (payload req) ''instrument'' = Some (instrument row) \<and>
            get_klines e symbol interval startTime endTime =
              (case post e req of
                 RequestFailed m \<Rightarrow> Inl (HTTPException 500 (''Error calling DhanHQ API: '' @ m))
               | NotJson m \<Rightarrow> Inl (NameError (''name '' @ sq @ ''json'' @ sq @ '' is not defined''))
               | Body dhan_data \<Rightarrow> transform (int_max_str_digits e) dhan_data))))"
proof (intro conjI impI)
  assume "symbol \<notin> tradingSymbol ` set (script_df e)"
  then have "filter (\<lambda>r. tradingSymbol r = symbol) (script_df e) = []"
    by (auto simp: filter_empty_conv)
  then show unknown: "get_klines e symbol interval startTime endTime =
        Inl (HTTPException 404
               (''Instrument with trading symbol '' @ sq @ symbol @ sq @ '' not found.''))"
    by (simp add: get_klines_def prepare_def find_instrument_def)
  show "klines_endpoint e symbol interval startTime endTime =
        JSONResponse 404
          (PDict [(''detail'',
                   PStr (''Instrument with trading symbol '' @ sq @ symbol @ sq @ '' not found.''))])"
    by (simp add: klines_endpoint_def unknown)
next
  assume "symbol \<in> tradingSymbol ` set (script_df e)"
  then have "\<exists>r \<in> set (script_df e). tradingSymbol r = symbol"
    by auto
  then obtain before row after where
    split: "script_df e = before @ row # after" and row: "tradingSymbol row = symbol" and
    first: "\<forall>r \<in> set before. tradingSymbol r \<noteq> symbol"
    using split_list_first_prop [of "script_df e" "\<lambda>r. tradingSymbol r = symbol"] by blast
  from first have "filter (\<lambda>r. tradingSymbol r = symbol) before = []"
    by (simp add: filter_empty_conv)
  with split row have found: "find_instrument e symbol = Inr row"
    by (simp add: find_instrument_def)
  have built: "prepare e symbol interval startTime endTime =
      Inr (dhan_request e row parsed_interval (strftime (fst dates)) (strftime (snd dates)))"
    if "date_range e startTime endTime = Inr dates \<and> parse_interval interval = Inr parsed_interval"
    for dates parsed_interval
    using that found by (simp add: prepare_def)
  have used: "map_of (payload req) ''securityId'' = Some (str_cell (securityId row)) \<and>
        map_of (payload req) ''exchangeSegment'' = Some (exchangeSegment row) \<and>
        map_of (payload req) ''instrument'' = Some (instrument row) \<and>
        get_klines e symbol interval startTime endTime =
              (case post e req of
                 RequestFailed m \<Rightarrow> Inl (HTTPException 500 (''Error calling DhanHQ API: '' @ m))
               | NotJson m \<Rightarrow> Inl (NameError (''name '' @ sq @ ''json'' @ sq @ '' is not defined''))
               | Body dhan_data \<Rightarrow> transform (int_max_str_digits e) dhan_data)"
    if "prepare e symbol interval startTime endTime = Inr req" for req
    using that found get_klines_posts [OF that]
    by (auto simp: prepare_def bind_eq_Inr dhan_request_def)
  from first have notin: "symbol \<notin> tradingSymbol ` set before"
    by auto
  from split row notin found built used show "(\<exists>before row after.
         script_df e = before @ row # after \<and> tradingSymbol row = symbol \<and>
         symbol \<notin> tradingSymbol ` set before \<and>
         find_instrument e symbol = Inr row \<and>
         (\<forall>dates parsed_interval.
            date_range e startTime endTime = Inr dates \<and>
            parse_interval interval = Inr parsed_interval \<longrightarrow>
            prepare e symbol interval startTime endTime =
              Inr (dhan_request e row parsed_interval (strftime (fst dates)) (strftime (snd dates)))) \<and>
         (\<forall>req. prepare e symbol interval startTime endTime = Inr req \<longrightarrow>
            map_of (payload req) ''securityId'' = Some (str_cell (securityId row)) \<and>
            map_of (payload req) ''exchangeSegment'' = Some (exchangeSegment row) \<and>
            map_of (payload req) ''instrument'' = Some (instrument row) \<and>
            get_klines e symbol interval startTime endTime =
              (case post e req of
                 RequestFailed m \<Rightarrow> Inl (HTTPException 500 (''Error calling DhanHQ API: '' @ m))
               | NotJson m \<Rightarrow> Inl (NameError (''name '' @ sq @ ''json'' @ sq @ '' is not defined''))
               | Body dhan_data \<Rightarrow> transform (int_max_str_digits e) dhan_data)))"
    by (intro exI [of _ before] exI [of _ row] exI [of _ after] conjI allI impI) blast+
qed

text \<open>
  On the example table: \<^verbatim>\<open>reliance\<close> in lower case is not found; \<^verbatim>\<open>RELIANCE\<close> occurs
  in the first and in the third row, the request is built from the first, and an
  upstream that accepts only the request for the first row answers, while one that
  accepts only the request for the third row does not.
\<close>

theorem symbol_lookup_witness:
  "klines_endpoint (example_env (Body two_candles)) ''reliance'' ''5m'' None None =
     JSONResponse 404
       (PDict [(''detail'',
                PStr (''Instrument with trading symbol '' @ sq @ ''reliance'' @ sq @ '' not found.''))]) \<and>
   find_instrument (example_env (Body two_candles)) ''RELIANCE'' = Inr (example_table ! 0) \<and>
   tradingSymbol (example_table ! 2) = ''RELIANCE'' \<and>
   prepare (example_env (Body two_candles)) ''RELIANCE'' ''5m'' None None =
     Inr (example_request ''2885'' ''NSE_EQ'' ''2024-02-14 10:00:00'' ''2024-03-15 10:00:00'') \<and>
   get_klines
       (expecting_env (example_request ''2885'' ''NSE_EQ'' ''2024-02-14 10:00:00'' ''2024-03-15 10:00:00''))
       ''RELIANCE'' ''5m'' None None =
     Inr [[PInt 1700000000000, PStr ''100.5'', PStr ''102'', PStr ''99.8'', PStr ''100.9'',
           PStr ''2000''],
          [PInt 1700000060000, PStr ''101'', PStr ''103'', PStr ''100'', PStr ''102'',
           PStr ''3000'']] \<and>
   get_klines
       (expecting_env (example_request ''500325'' ''BSE_EQ'' ''2024-02-14 10:00:00'' ''2024-03-15 10:00:00''))
       ''RELIANCE'' ''5m'' None None =
     Inl (HTTPException 500 ''Error calling DhanHQ API: unexpected request'')"
proof -
  let ?e = "example_env (Body two_candles)"
  let ?first = "expecting_env
    (example_request ''2885'' ''NSE_EQ'' ''2024-02-14 10:00:00'' ''2024-03-15 10:00:00'')"
  let ?third = "expecting_env
    (example_request ''500325'' ''BSE_EQ'' ''2024-02-14 10:00:00'' ''2024-03-15 10:00:00'')"
  have absent: "''reliance'' \<notin> tradingSymbol ` set (script_df ?e)"
    by (simp add: example_env_def example_table_def)
  have present: "''RELIANCE'' \<in> tradingSymbol ` set (script_df env)"
    if "script_df env = example_table" for env :: env
    by (simp add: that example_table_def)
  have table: "script_df ?e = example_table"
    by (simp add: example_env_def)
  have dates: "date_range env None None =
      Inr (example_now\<lparr>year := 2024, month := 2, day := 14\<rparr>, example_now)"
    if "now env = example_now" for env :: env
    by (simp add: that date_range_def truthy_def sub_days_def example_now_def ymd2ord_def
        days_before_year_def days_before_month_def is_leap_def ord2ymd_def month_day_def Let_def)
  have interval: "parse_interval ''5m'' = Inr ''5''"
    by (simp add: parse_interval_def isdigit_def is_decimal_def)
  have built: "prepare env ''RELIANCE'' ''5m'' None None =
      Inr (example_request ''2885'' ''NSE_EQ'' ''2024-02-14 10:00:00'' ''2024-03-15 10:00:00'')"
    if t: "script_df env = example_table" and n: "now env = example_now"
      and k: "DHAN_ACCESS_TOKEN env = ''YOUR_DHAN_ACCESS_TOKEN_HERE''" for env :: env
  proof -
    from symbol_lookup [of "''RELIANCE''" env "''5m''" None None, THEN conjunct2, THEN mp,
        OF present [OF t]]
    obtain row where
      found: "find_instrument env ''RELIANCE'' = Inr row" and
      req: "\<forall>dates parsed_interval.
            date_range env None None = Inr dates \<and> parse_interval ''5m'' = Inr parsed_interval \<longrightarrow>
            prepare env ''RELIANCE'' ''5m'' None None =
              Inr (dhan_request env row parsed_interval (strftime (fst dates)) (strftime (snd dates)))"
      by blast
    have "find_instrument env ''RELIANCE'' = Inr (example_table ! 0)"
      by (simp add: find_instrument_def t example_table_def)
    with found have "row = example_table ! 0"
      by simp
    with req dates [OF n] interval show ?thesis
      by (simp add: dhan_request_def example_request_def example_table_def k DHAN_API_URL_def
          strftime_def example_now_def str_eval)
  qed
  have first: "find_instrument ?e ''RELIANCE'' = Inr (example_table ! 0)"
    by (simp add: find_instrument_def example_env_def example_table_def)
  have prepared: "prepare ?e ''RELIANCE'' ''5m'' None None =
      Inr (example_request ''2885'' ''NSE_EQ'' ''2024-02-14 10:00:00'' ''2024-03-15 10:00:00'')"
    by (rule built) (simp_all add: example_env_def)
  have posted: "get_klines env ''RELIANCE'' ''5m'' None None =
      (case post env (example_request ''2885'' ''NSE_EQ'' ''2024-02-14 10:00:00''
                        ''2024-03-15 10:00:00'') of
         RequestFailed m \<Rightarrow> Inl (HTTPException 500 (''Error calling DhanHQ API: '' @ m))
       | NotJson m \<Rightarrow> Inl (NameError (''name '' @ sq @ ''json'' @ sq @ '' is not defined''))
       | Body dhan_data \<Rightarrow> transform (int_max_str_digits env) dhan_data)"
    if t: "script_df env = example_table" and n: "now env = example_now"
      and k: "DHAN_ACCESS_TOKEN env = ''YOUR_DHAN_ACCESS_TOKEN_HERE''" for env :: env
  proof -
    from symbol_lookup [of "''RELIANCE''" env "''5m''" None None, THEN conjunct2, THEN mp,
        OF present [OF t]] built [OF t n k]
    show ?thesis
      by (elim exE conjE) simp
  qed
  have "get_klines ?first ''RELIANCE'' ''5m'' None None =
     Inr [[PInt 1700000000000, PStr ''100.5'', PStr ''102'', PStr ''99.8'', PStr ''100.9'',
           PStr ''2000''],
          [PInt 1700000060000, PStr ''101'', PStr ''103'', PStr ''100'', PStr ''102'',
           PStr ''3000'']]"
    using posted [of ?first] by (simp add: transform_two_candles)
  moreover have "get_klines ?third ''RELIANCE'' ''5m'' None None =
     Inl (HTTPException 500 ''Error calling DhanHQ API: unexpected request'')"
    using posted [of ?third] by (simp add: example_request_def)
  ultimately show ?thesis
    using symbol_lookup [of "''reliance''" ?e "''5m''" None None, THEN conjunct1, THEN mp, OF absent]
      first prepared
    by (simp add: example_table_def)
qed
subsection \<open>Failures that leave the function unhandled\<close>

text \<open>
  C6 says that a body that is not JSON gives status 500 with a detail that describes the
  decode error. The handler that would do so is guarded by \<^verbatim>\<open>except json.JSONDecodeError\<close>,
  and the module never imports \<^verbatim>\<open>json\<close>: on the example, with an upstream that answers
  with a body that does not parse, the function raises \<^verbatim>\<open>NameError\<close>, and the answer is
  the plain text of the framework, without a detail.
\<close>

theorem undecodable_body_raises_NameError:
  "get_klines (example_env (NotJson ''Expecting value: line 1 column 1 (char 0)''))
     ''RELIANCE'' ''5m'' None None =
     Inl (NameError (''name '' @ sq @ ''json'' @ sq @ '' is not defined'')) \<and>
   klines_endpoint (example_env (NotJson ''Expecting value: line 1 column 1 (char 0)''))
     ''RELIANCE'' ''5m'' None None =
     PlainTextResponse 500 ''Internal Server Error''"
  by (simp add: klines_endpoint_def get_klines_def example_prepare call_upstream_def
      module_globals_def)

text \<open>
  The same for every table, clock and request: whenever the request is posted and the
  body does not parse, the function raises \<^verbatim>\<open>NameError\<close>.
\<close>

lemma undecodable_body_general:
  "prepare e symbol interval startTime endTime = Inr req \<Longrightarrow> post e req = NotJson m \<Longrightarrow>
     get_klines e symbol interval startTime endTime =
       Inl (NameError (''name '' @ sq @ ''json'' @ sq @ '' is not defined''))"
  by (simp add: get_klines_def call_upstream_def module_globals_def)

text \<open>
  C7 says that a value that cannot be coerced gives status 500 with a detail. The
  handler of step 5 catches \<^verbatim>\<open>KeyError\<close> and \<^verbatim>\<open>TypeError\<close> only: for the body whose
  second timestamp is the text \<^verbatim>\<open>"abc"\<close>, \<^verbatim>\<open>int\<close> raises \<^verbatim>\<open>ValueError\<close>, which leaves the
  function, and the answer has no detail.
\<close>

theorem text_timestamp_raises_ValueError:
  "get_klines (example_env (Body text_timestamp)) ''RELIANCE'' ''5m'' None None =
     Inl (ValueError (''invalid literal for int() with base 10: '' @ sq @ ''abc'' @ sq)) \<and>
   klines_endpoint (example_env (Body text_timestamp)) ''RELIANCE'' ''5m'' None None =
     PlainTextResponse 500 ''Internal Server Error''"
  by (simp add: klines_endpoint_def get_klines_def example_prepare call_upstream_def
      transform_eval text_timestamp_def int_of_str_abc)

text \<open>
  The failures the handler names, a missing key and a value of an unsuitable type, are
  answered with status 500 and a detail.
\<close>

lemma transform_KeyError_TypeError:
  "transform_body maxd d = Inl (KeyError k) \<or> transform_body maxd d = Inl (TypeError k) \<Longrightarrow>
     \<exists>detail. transform maxd d = Inl (HTTPException 500 detail)"
  by (auto simp: transform_def)

text \<open>A \<^verbatim>\<open>ValueError\<close> or an \<^verbatim>\<open>OverflowError\<close> of step 5 passes the handler unchanged.\<close>

lemma transform_ValueError:
  "transform_body maxd d = Inl (ValueError m) \<Longrightarrow> transform maxd d = Inl (ValueError m)"
  "transform_body maxd d = Inl (OverflowError m) \<Longrightarrow> transform maxd d = Inl (OverflowError m)"
  by (simp_all add: transform_def)

text \<open>
  C8 says that every failure is answered with a JSON body that has a detail. For the
  body whose second timestamp is the text \<^verbatim>\<open>"1700000060.5"\<close> the first row can be built
  and the second cannot, since \<^verbatim>\<open>int\<close> does not read a decimal point: no rows are
  returned, and the answer is the plain text of the framework, without a detail.
\<close>

theorem decimal_text_timestamp_has_no_detail:
  "get_klines (example_env (Body decimal_text_timestamp)) ''RELIANCE'' ''5m'' None None =
     Inl (ValueError (''invalid literal for int() with base 10: '' @ sq @ ''1700000060.5'' @ sq)) \<and>
   klines_endpoint (example_env (Body decimal_text_timestamp)) ''RELIANCE'' ''5m'' None None =
     PlainTextResponse 500 ''Internal Server Error''"
  by (simp add: klines_endpoint_def get_klines_def example_prepare call_upstream_def
      transform_eval decimal_text_timestamp_def int_of_str_decimal_text)

text \<open>
  All or nothing: the function returns all rows or raises, and when it returns there is
  one row for each position up to the end of the shortest column.
\<close>

lemma all_or_nothing:
  "(\<exists>exc. get_klines e symbol interval startTime endTime = Inl exc) \<or>
   (\<exists>req dhan_data rows a1 a2 a3 a4 a5 a6 ts ps hs ls cs vs.
      get_klines e symbol interval startTime endTime = Inr rows \<and>
      prepare e symbol interval startTime endTime = Inr req \<and> post e req = Body dhan_data \<and>
      getitem dhan_data ''timestamp'' = Inr a1 \<and> getitem dhan_data ''open'' = Inr a2 \<and>
      getitem dhan_data ''high'' = Inr a3 \<and> getitem dhan_data ''low'' = Inr a4 \<and>
      getitem dhan_data ''close'' = Inr a5 \<and> getitem dhan_data ''volume'' = Inr a6 \<and>
      py_iter a1 = Inr ts \<and> py_iter a2 = Inr ps \<and> py_iter a3 = Inr hs \<and>
      py_iter a4 = Inr ls \<and> py_iter a5 = Inr cs \<and> py_iter a6 = Inr vs \<and>
      length rows = Min {length ts, length ps, length hs, length ls, length cs, length vs})"
proof (cases "get_klines e symbol interval startTime endTime")
  case (Inl exc)
  then show ?thesis by blast
next
  case (Inr rows)
  then obtain req dhan_data where
    req: "prepare e symbol interval startTime endTime = Inr req" and
    up: "call_upstream e req = Inr dhan_data" and
    tr: "transform (int_max_str_digits e) dhan_data = Inr rows"
    by (auto simp: get_klines_def bind_eq_Inr)
  from up have body: "post e req = Body dhan_data"
    by (auto simp: call_upstream_def split: upstream.splits if_splits)
  from tr obtain a1 a2 a3 a4 a5 a6 ts ps hs ls cs vs where
    cols: "getitem dhan_data ''timestamp'' = Inr a1" "getitem dhan_data ''open'' = Inr a2"
      "getitem dhan_data ''high'' = Inr a3" "getitem dhan_data ''low'' = Inr a4"
      "getitem dhan_data ''close'' = Inr a5" "getitem dhan_data ''volume'' = Inr a6"
      "py_iter a1 = Inr ts" "py_iter a2 = Inr ps" "py_iter a3 = Inr hs"
      "py_iter a4 = Inr ls" "py_iter a5 = Inr cs" "py_iter a6 = Inr vs" and
    all2: "list_all2 (\<lambda>tup row. kline_row (int_max_str_digits e) tup = Inr row)
             (zip6 ts ps hs ls cs vs) rows"
    unfolding transform_Inr_iff by blast
  from all2 have "length rows = length (zip6 ts ps hs ls cs vs)"
    by (simp add: list_all2_lengthD)
  then have "length rows = Min {length ts, length ps, length hs, length ls, length cs, length vs}"
    by (simp add: length_zip6 min_def)
  with Inr req body cols show ?thesis
    by blast
qed

subsection \<open>Order of the checks\<close>

text \<open>
  C9: the symbol is looked up before the interval is checked. A request with an unknown
  symbol and an interval without a digit character is answered with 404, and a request
  answered with 400 has a symbol that is in the table.
\<close>

theorem error_precedence:
  "(symbol \<notin> tradingSymbol ` set (script_df e) \<and> (\<forall>c \<in> set interval. \<not> isdigit c) \<longrightarrow>
      get_klines e symbol interval startTime endTime =
        Inl (HTTPException 404
              (''Instrument with trading symbol '' @ sq @ symbol @ sq @ '' not found.'')) \<and>
      status_code (klines_endpoint e symbol interval startTime endTime) = 404) \<and>
   (status_code (klines_endpoint e symbol interval startTime endTime) = 400 \<longrightarrow>
      symbol \<in> tradingSymbol ` set (script_df e))"
proof -
  have unknown: "get_klines e symbol interval startTime endTime =
        Inl (HTTPException 404
              (''Instrument with trading symbol '' @ sq @ symbol @ sq @ '' not found.''))"
    if "symbol \<notin> tradingSymbol ` set (script_df e)"
  proof -
    from that have "filter (\<lambda>r. tradingSymbol r = symbol) (script_df e) = []"
      by (auto simp: filter_empty_conv)
    then show ?thesis
      by (simp add: get_klines_def prepare_def find_instrument_def)
  qed
  show ?thesis
  proof (intro conjI impI)
    assume a: "symbol \<notin> tradingSymbol ` set (script_df e) \<and> (\<forall>c \<in> set interval. \<not> isdigit c)"
    then show "get_klines e symbol interval startTime endTime =
        Inl (HTTPException 404
              (''Instrument with trading symbol '' @ sq @ symbol @ sq @ '' not found.''))"
      by (simp add: unknown)
    from a show "status_code (klines_endpoint e symbol interval startTime endTime) = 404"
      by (simp add: klines_endpoint_def unknown)
  next
    assume s: "status_code (klines_endpoint e symbol interval startTime endTime) = 400"
    show "symbol \<in> tradingSymbol ` set (script_df e)"
    proof (rule ccontr)
      assume "symbol \<notin> tradingSymbol ` set (script_df e)"
      then have "status_code (klines_endpoint e symbol interval startTime endTime) = 404"
        by (simp add: klines_endpoint_def unknown)
      with s show False
        by simp
    qed
  qed
qed

text \<open>
  On the example: \<^verbatim>\<open>NOSUCH\<close> with the interval \<^verbatim>\<open>abc\<close> gives 404; \<^verbatim>\<open>RELIANCE\<close> with
  the interval \<^verbatim>\<open>abc\<close> gives 400, and \<^verbatim>\<open>RELIANCE\<close> is in the table.
\<close>

theorem error_precedence_witness:
  "status_code (klines_endpoint (example_env (Body two_candles)) ''NOSUCH'' ''abc'' None None) = 404 \<and>
   status_code (klines_endpoint (example_env (Body two_candles)) ''RELIANCE'' ''abc'' None None) = 400 \<and>
   ''RELIANCE'' \<in> tradingSymbol ` set (script_df (example_env (Body two_candles)))"
proof -
  let ?e = "example_env (Body two_candles)"
  have unknown: "''NOSUCH'' \<notin> tradingSymbol ` set (script_df ?e) \<and> (\<forall>c \<in> set ''abc''. \<not> isdigit c)"
    by (simp add: example_env_def example_table_def isdigit_def is_decimal_def)
  have bad: "status_code (klines_endpoint ?e ''RELIANCE'' ''abc'' None None) = 400"
    by (simp add: klines_endpoint_def get_klines_def prepare_def find_instrument_def
        example_env_def example_table_def date_range_def truthy_def sub_days_def example_now_def
        ymd2ord_def days_before_year_def days_before_month_def is_leap_def ord2ymd_def
        month_day_def Let_def parse_interval_def isdigit_def is_decimal_def)
  show ?thesis
    using error_precedence [of "''NOSUCH''" ?e "''abc''" None None, THEN conjunct1, THEN mp,
        OF unknown]
      error_precedence [of "''RELIANCE''" ?e "''abc''" None None, THEN conjunct2, THEN mp, OF bad]
      bad
    by simp
qed

subsection \<open>Whole seconds\<close>



end
